theory Spec2Isabelle
  imports Complex_Main "HOL-Library.AList" "HOL-Library.Sublist"
begin

section \<open>JavaScript values\<close>

text \<open>
  The handlers of \<^verbatim>\<open>src/app/actions.ts\<close> receive untyped data and hand it to schema
  validation, so the model starts from JavaScript values. A number is a finite value,
  an infinity or NaN; a finite value is the rational it denotes. A string is a list of
  code units below 256.
\<close>

datatype jsnum = NaN | Fin rat | PosInf | NegInf

datatype jsfile = File (fname: string) (fsize: nat)

datatype jsval =
    JUndefined
  | JNull
  | JBool bool
  | JNum jsnum
  | JStr string
  | JArr "jsval list"
  | JObj "(string \<times> jsval) list"
  | JFile jsfile

text \<open>Property read \<^verbatim>\<open>o[k]\<close> and the test \<^verbatim>\<open>k in o\<close> on an object literal.\<close>

definition get :: "(string \<times> jsval) list \<Rightarrow> string \<Rightarrow> jsval" where
  "get kvs k = (case map_of kvs k of None \<Rightarrow> JUndefined | Some v \<Rightarrow> v)"

definition has_key :: "(string \<times> jsval) list \<Rightarrow> string \<Rightarrow> bool" where
  "has_key kvs k = (map_of kvs k \<noteq> None)"

subsection \<open>Rounding to a double\<close>

text \<open>
  A JavaScript number is an IEEE 754 double. The finite doubles are rationals, and the
  result of an addition, a subtraction or a conversion from a string is the double
  nearest to the exact result, ties going to the even significand, and an infinity
  from \<open>2 ^ 1024\<close> on. The doubles of a binade \<open>2 ^ e \<le> a < 2 ^ (e + 1)\<close> are the
  multiples of \<open>2 ^ (e - 52)\<close>; below \<open>2 ^ (- 1022)\<close> they are the multiples of
  \<open>2 ^ (- 1074)\<close>. The sign of zero is not represented: no expression of the program
  modelled here can tell the two zeros apart. The numbers the program is given (an
  input, a stored field) are doubles already; every number it computes is rounded.
\<close>

fun bitLength :: "nat \<Rightarrow> nat" where
  "bitLength n = (if n = 0 then 0 else Suc (bitLength (n div 2)))"

definition pow2 :: "int \<Rightarrow> rat" where
  "pow2 e = (if 0 \<le> e then 2 ^ nat e else 1 / 2 ^ nat (- e))"

text \<open>The exponent \<open>e\<close> with \<open>2 ^ e \<le> a < 2 ^ (e + 1)\<close>, for a positive \<open>a\<close>.\<close>

definition binade :: "rat \<Rightarrow> int" where
  "binade a = (if 1 \<le> a then int (bitLength (nat \<lfloor>a\<rfloor>)) - 1
               else - int (bitLength (nat (\<lceil>1 / a\<rceil> - 1))))"

definition roundHalfEven :: "rat \<Rightarrow> int" where
  "roundHalfEven y =
     (let f = \<lfloor>y\<rfloor>; d = y - of_int f
      in if d < 1 / 2 then f else if 1 / 2 < d then f + 1
         else if even f then f else f + 1)"

definition toDouble :: "rat \<Rightarrow> jsnum" where
  "toDouble x =
     (if x = 0 then Fin 0
      else
        let q = pow2 (max (binade \<bar>x\<bar>) (- 1022) - 52);
            r = of_int (roundHalfEven (\<bar>x\<bar> / q)) * q
        in if 2 ^ 1024 \<le> r then (if x < 0 then NegInf else PosInf)
           else Fin (if x < 0 then - r else r))"

subsection \<open>Arithmetic and truthiness\<close>

text \<open>
  The comparison \<^verbatim>\<open>a < b\<close> is exact; addition and subtraction round their result.
\<close>

fun num_less :: "jsnum \<Rightarrow> jsnum \<Rightarrow> bool" where
  "num_less NaN _ = False"
| "num_less _ NaN = False"
| "num_less (Fin a) (Fin b) = (a < b)"
| "num_less (Fin _) PosInf = True"
| "num_less (Fin _) NegInf = False"
| "num_less PosInf _ = False"
| "num_less NegInf NegInf = False"
| "num_less NegInf _ = True"

fun num_neg :: "jsnum \<Rightarrow> jsnum" where
  "num_neg NaN = NaN"
| "num_neg (Fin a) = Fin (- a)"
| "num_neg PosInf = NegInf"
| "num_neg NegInf = PosInf"

fun num_add :: "jsnum \<Rightarrow> jsnum \<Rightarrow> jsnum" where
  "num_add NaN _ = NaN"
| "num_add _ NaN = NaN"
| "num_add (Fin a) (Fin b) = toDouble (a + b)"
| "num_add (Fin _) PosInf = PosInf"
| "num_add (Fin _) NegInf = NegInf"
| "num_add PosInf NegInf = NaN"
| "num_add PosInf _ = PosInf"
| "num_add NegInf PosInf = NaN"
| "num_add NegInf _ = NegInf"

definition num_sub :: "jsnum \<Rightarrow> jsnum \<Rightarrow> jsnum" where
  "num_sub a b = num_add a (num_neg b)"

text \<open>Truthiness (ToBoolean): NaN, zero, the empty string, null and undefined are falsy.\<close>

fun truthy :: "jsval \<Rightarrow> bool" where
  "truthy JUndefined = False"
| "truthy JNull = False"
| "truthy (JBool b) = b"
| "truthy (JNum n) = (n \<noteq> NaN \<and> n \<noteq> Fin 0)"
| "truthy (JStr s) = (s \<noteq> [])"
| "truthy (JArr _) = True"
| "truthy (JObj _) = True"
| "truthy (JFile _) = True"

subsection \<open>String to number\<close>

text \<open>
  \<^verbatim>\<open>Number(s)\<close> on a string follows the StringNumericLiteral grammar of ECMAScript:
  white space is trimmed, the empty string is 0, a decimal literal may carry a sign, a
  fraction and an exponent, \<^verbatim>\<open>Infinity\<close> may carry a sign, and the prefixes
  \<^verbatim>\<open>0x\<close>, \<^verbatim>\<open>0o\<close>, \<^verbatim>\<open>0b\<close> introduce unsigned integers in base 16, 8 and 2. Anything
  else is NaN. The value of a literal is rounded to the nearest double. (For a decimal
  literal of more than 20 significant digits the standard lets an implementation alter
  the digits after the 20th before rounding; the engines round the value itself, as
  here.)
\<close>

definition isWhiteSpace :: "char \<Rightarrow> bool" where
  "isWhiteSpace c = (of_char c \<in> {9, 10, 11, 12, 13, 32, 160 :: nat})"

definition trimWS :: "string \<Rightarrow> string" where
  "trimWS s = rev (dropWhile isWhiteSpace (rev (dropWhile isWhiteSpace s)))"

definition isDigit :: "char \<Rightarrow> bool" where
  "isDigit c = (48 \<le> (of_char c :: nat) \<and> (of_char c :: nat) \<le> 57)"

definition hexVal :: "char \<Rightarrow> nat option" where
  "hexVal c = (let n = (of_char c :: nat) in
     if 48 \<le> n \<and> n \<le> 57 then Some (n - 48)
     else if 97 \<le> n \<and> n \<le> 102 then Some (n - 87)
     else if 65 \<le> n \<and> n \<le> 70 then Some (n - 55)
     else None)"

definition inBase :: "nat \<Rightarrow> char \<Rightarrow> bool" where
  "inBase b c = (case hexVal c of None \<Rightarrow> False | Some d \<Rightarrow> d < b)"

definition baseVal :: "nat \<Rightarrow> string \<Rightarrow> nat" where
  "baseVal b ds = foldl (\<lambda>a c. b * a + the (hexVal c)) 0 ds"

text \<open>ExponentPart: \<^verbatim>\<open>e\<close> or \<^verbatim>\<open>E\<close>, an optional sign, at least one digit.\<close>

definition exponentPart :: "string \<Rightarrow> int option" where
  "exponentPart s =
     (case s of
        [] \<Rightarrow> Some 0
      | c # r \<Rightarrow>
          if c = CHR ''e'' \<or> c = CHR ''E'' then
            (let (neg, ds) = (case r of
                                [] \<Rightarrow> (False, [])
                              | d # r' \<Rightarrow> if d = CHR ''-'' then (True, r')
                                         else if d = CHR ''+'' then (False, r')
                                         else (False, r))
             in if ds \<noteq> [] \<and> list_all isDigit ds
                then Some (if neg then - int (baseVal 10 ds) else int (baseVal 10 ds))
                else None)
          else None)"

definition scale10 :: "rat \<Rightarrow> int \<Rightarrow> rat" where
  "scale10 v e = (if e < 0 then v / 10 ^ nat (- e) else v * 10 ^ nat e)"

text \<open>StrUnsignedDecimalLiteral.\<close>

definition unsignedDecimal :: "string \<Rightarrow> jsnum" where
  "unsignedDecimal s =
     (if s = ''Infinity'' then PosInf
      else
        let ip = takeWhile isDigit s;
            r1 = dropWhile isDigit s;
            (fp, r2) = (case r1 of
                          [] \<Rightarrow> ([], [])
                        | c # r \<Rightarrow> if c = CHR ''.''
                                   then (takeWhile isDigit r, dropWhile isDigit r)
                                   else ([], r1))
        in if ip = [] \<and> fp = [] then NaN
           else (case exponentPart r2 of
                   None \<Rightarrow> NaN
                 | Some e \<Rightarrow>
                     toDouble (scale10 (of_nat (baseVal 10 ip)
                                        + of_nat (baseVal 10 fp) / 10 ^ length fp) e)))"

definition nonDecimal :: "string \<Rightarrow> jsnum option" where
  "nonDecimal s =
     (case s of
        z # x # ds \<Rightarrow>
          if z = CHR ''0'' then
            (let b = (if x = CHR ''x'' \<or> x = CHR ''X'' then 16
                      else if x = CHR ''o'' \<or> x = CHR ''O'' then 8
                      else if x = CHR ''b'' \<or> x = CHR ''B'' then 2
                      else (0::nat))
             in if b = 0 then None
                else if ds \<noteq> [] \<and> list_all (inBase b) ds
                     then Some (toDouble (of_nat (baseVal b ds)))
                     else Some NaN)
          else None
      | _ \<Rightarrow> None)"

definition StringToNumber :: "string \<Rightarrow> jsnum" where
  "StringToNumber str =
     (let s = trimWS str in
      case s of
        [] \<Rightarrow> Fin 0
      | c # r \<Rightarrow>
          (case nonDecimal s of
             Some n \<Rightarrow> n
           | None \<Rightarrow>
               if c = CHR ''+'' then unsignedDecimal r
               else if c = CHR ''-'' then num_neg (unsignedDecimal r)
               else unsignedDecimal s))"

text \<open>
  \<^verbatim>\<open>Number(v)\<close> on any value (ToNumber). An array goes through its string form, the
  elements joined by commas: the empty array is the empty string, a one-element array is
  its element's string form (empty for null and undefined), and a longer array contains
  a comma, which no numeric literal has. A plain object or a File prints as
  \<^verbatim>\<open>[object ...]\<close>.
\<close>

fun ToNumber :: "jsval \<Rightarrow> jsnum" where
  "ToNumber JUndefined = NaN"
| "ToNumber JNull = Fin 0"
| "ToNumber (JBool b) = (if b then Fin 1 else Fin 0)"
| "ToNumber (JNum n) = n"
| "ToNumber (JStr s) = StringToNumber s"
| "ToNumber (JArr []) = Fin 0"
| "ToNumber (JArr [x]) =
     (case x of
        JUndefined \<Rightarrow> Fin 0
      | JNull \<Rightarrow> Fin 0
      | JBool _ \<Rightarrow> NaN
      | JNum n \<Rightarrow> n
      | JStr s \<Rightarrow> StringToNumber s
      | JArr ys \<Rightarrow> ToNumber (JArr ys)
      | JObj _ \<Rightarrow> NaN
      | JFile _ \<Rightarrow> NaN)"
| "ToNumber (JArr (x # y # zs)) = NaN"
| "ToNumber (JObj _) = NaN"
| "ToNumber (JFile _) = NaN"

subsection \<open>Number to string\<close>

text \<open>
  The decimal digits of a natural number, as a template literal or a property key
  prints it.
\<close>

fun showNat :: "nat \<Rightarrow> string" where
  "showNat n =
     (if n < 10 then [char_of (48 + n)]
      else showNat (n div 10) @ [char_of (48 + n mod 10)])"

section \<open>Schema validation\<close>

text \<open>
  The schemas are written with the zod library (version 3), which is not part of the
  repository. Its parser is modelled here for the constructors the schemas use. Parsing
  a value gives a status, the issues found and the output value. An input of the wrong
  type aborts; a failed check or refinement only marks the result dirty, so later
  checks and refinements still run. \<^verbatim>\<open>safeParse\<close> succeeds when the status is valid. The
  patterns behind \<^verbatim>\<open>.email()\<close> and \<^verbatim>\<open>.url()\<close> are taken as parameters.
\<close>

datatype pathelem = Key string | Idx nat

record issue =
  path :: "pathelem list"
  msg :: string

datatype status = Valid | Dirty | Aborted

record zlib =
  isEmail :: "string \<Rightarrow> bool"
  isUrl :: "string \<Rightarrow> bool"

datatype scheck =
    Min nat string
  | Max nat string
  | Length nat string
  | Email string
  | Url string

datatype zschema =
    ZString "scheck list"
  | ZNumber bool "(rat \<times> string) list"
  | ZBoolean
  | ZEnum "string list"
  | ZArray zschema "(nat \<times> string) option"
  | ZObject "(string \<times> zschema) list"
  | ZOptional zschema
  | ZDefault zschema jsval
  | ZRefine zschema "jsval \<Rightarrow> bool" string "pathelem list"

type_synonym presult = "status \<times> issue list \<times> jsval"

definition mergeStatus :: "status \<Rightarrow> status \<Rightarrow> status" where
  "mergeStatus a b =
     (if a = Aborted \<or> b = Aborted then Aborted
      else if a = Dirty \<or> b = Dirty then Dirty else Valid)"

text \<open>The type names of \<^verbatim>\<open>getParsedType\<close> and the default message of a type error.\<close>

fun parsedType :: "jsval \<Rightarrow> string" where
  "parsedType JUndefined = ''undefined''"
| "parsedType JNull = ''null''"
| "parsedType (JBool _) = ''boolean''"
| "parsedType (JNum n) = (if n = NaN then ''nan'' else ''number'')"
| "parsedType (JStr _) = ''string''"
| "parsedType (JArr _) = ''array''"
| "parsedType (JObj _) = ''object''"
| "parsedType (JFile _) = ''object''"

definition invalidType :: "pathelem list \<Rightarrow> string \<Rightarrow> jsval \<Rightarrow> presult" where
  "invalidType p expected v =
     (Aborted,
      [\<lparr>path = p,
        msg = (if v = JUndefined then ''Required''
               else ''Expected '' @ expected @ '', received '' @ parsedType v)\<rparr>],
      v)"

fun scheckFails :: "zlib \<Rightarrow> string \<Rightarrow> scheck \<Rightarrow> string option" where
  "scheckFails L s (Min n m) = (if length s < n then Some m else None)"
| "scheckFails L s (Max n m) = (if length s > n then Some m else None)"
| "scheckFails L s (Length n m) = (if length s \<noteq> n then Some m else None)"
| "scheckFails L s (Email m) = (if isEmail L s then None else Some m)"
| "scheckFails L s (Url m) = (if isUrl L s then None else Some m)"

definition checkIssues :: "pathelem list \<Rightarrow> string option list \<Rightarrow> issue list" where
  "checkIssues p rs = map (\<lambda>m. \<lparr>path = p, msg = m\<rparr>) (List.map_filter id rs)"

definition checked :: "pathelem list \<Rightarrow> string option list \<Rightarrow> jsval \<Rightarrow> presult" where
  "checked p rs v = (if checkIssues p rs = [] then Valid else Dirty, checkIssues p rs, v)"

definition joinValues :: "string list \<Rightarrow> string" where
  "joinValues opts =
     (case map (\<lambda>s. [CHR 0x27] @ s @ [CHR 0x27]) opts of
        [] \<Rightarrow> []
      | q # qs \<Rightarrow> foldl (\<lambda>a b. a @ '' | '' @ b) q qs)"

fun parse :: "zlib \<Rightarrow> zschema \<Rightarrow> pathelem list \<Rightarrow> jsval \<Rightarrow> presult" where
  "parse L (ZString cs) p v =
     (case v of
        JStr s \<Rightarrow> checked p (map (scheckFails L s) cs) v
      | _ \<Rightarrow> invalidType p ''string'' v)"
| "parse L (ZNumber coerce cs) p v =
     (let v' = (if coerce then JNum (ToNumber v) else v) in
      case v' of
        JNum n \<Rightarrow>
          if n = NaN then invalidType p ''number'' v'
          else checked p (map (\<lambda>(lo, m). if num_less n (Fin lo) then Some m else None) cs) v'
      | _ \<Rightarrow> invalidType p ''number'' v')"
| "parse L ZBoolean p v =
     (case v of
        JBool b \<Rightarrow> (Valid, [], v)
      | _ \<Rightarrow> invalidType p ''boolean'' v)"
| "parse L (ZEnum opts) p v =
     (case v of
        JStr s \<Rightarrow>
          if s \<in> set opts then (Valid, [], v)
          else (Aborted,
                [\<lparr>path = p,
                  msg = ''Invalid enum value. Expected '' @ joinValues opts
                        @ '', received '' @ [CHR 0x27] @ s @ [CHR 0x27]\<rparr>],
                v)
      | _ \<Rightarrow> invalidType p (joinValues opts) v)"
| "parse L (ZArray el minLen) p v =
     (case v of
        JArr xs \<Rightarrow>
          (let tooSmall = (case minLen of
                             None \<Rightarrow> []
                           | Some (n, m) \<Rightarrow>
                               if length xs < n then [\<lparr>path = p, msg = m\<rparr>] else []);
               rs = map (\<lambda>(i, x). parse L el (p @ [Idx i]) x) (enumerate 0 xs)
           in (foldl mergeStatus (if tooSmall = [] then Valid else Dirty) (map fst rs),
               tooSmall @ concat (map (fst \<circ> snd) rs),
               JArr (map (snd \<circ> snd) rs)))
      | _ \<Rightarrow> invalidType p ''array'' v)"
| "parse L (ZObject shape) p v =
     (case v of
        JObj kvs \<Rightarrow>
          (let rs = map (\<lambda>(k, sch). (k, parse L sch (p @ [Key k]) (get kvs k))) shape
           in (foldl mergeStatus Valid (map (fst \<circ> snd) rs),
               concat (map (fst \<circ> snd \<circ> snd) rs),
               JObj (map (\<lambda>(k, r). (k, snd (snd r)))
                       (filter (\<lambda>(k, r). snd (snd r) \<noteq> JUndefined \<or> has_key kvs k) rs))))
      | _ \<Rightarrow> invalidType p ''object'' v)"
| "parse L (ZOptional sch) p v =
     (if v = JUndefined then (Valid, [], JUndefined) else parse L sch p v)"
| "parse L (ZDefault sch d) p v = parse L sch p (if v = JUndefined then d else v)"
| "parse L (ZRefine sch pred m rp) p v =
     (case parse L sch p v of
        (Aborted, is, v') \<Rightarrow> (Aborted, is, v')
      | (st, is, v') \<Rightarrow>
          if pred v' then (st, is, v')
          else (Dirty, is @ [\<lparr>path = p @ rp, msg = m\<rparr>], v'))"

text \<open>
  \<^verbatim>\<open>schema.safeParse(data)\<close>: the validated data, or the issues.
  \<^verbatim>\<open>error.flatten().fieldErrors\<close> groups the messages of the issues with a non-empty
  path under the first element of the path (an index as its decimal string), in the
  order the keys first occur.
\<close>

definition safeParse :: "zlib \<Rightarrow> zschema \<Rightarrow> jsval \<Rightarrow> issue list + jsval" where
  "safeParse L sch v =
     (case parse L sch [] v of
        (Valid, _, out) \<Rightarrow> Inr out
      | (_, is, _) \<Rightarrow> Inl is)"

definition pathHead :: "issue \<Rightarrow> string option" where
  "pathHead i = (case path i of
                   [] \<Rightarrow> None
                 | Key k # _ \<Rightarrow> Some k
                 | Idx n # _ \<Rightarrow> Some (showNat n))"

definition fieldErrors :: "issue list \<Rightarrow> (string \<times> string list) list" where
  "fieldErrors is =
     map (\<lambda>k. (k, map msg (filter (\<lambda>i. pathHead i = Some k) is)))
         (remdups (List.map_filter pathHead is))"

section \<open>The hosted services\<close>

text \<open>
  The document store, the identity service and the attachment store are external. The
  world records what they hold. Whether a service refuses a request (security rules,
  a rejected value, a weak password) is a parameter of the environment, so that every
  \<^verbatim>\<open>catch\<close> branch of a handler is a branch of its model.
\<close>

datatype jserror = JsError (code: string) (emessage: string)

record fsdoc =
  collName :: string
  docId :: string
  docData :: "(string \<times> jsval) list"

record account =
  acctUid :: string
  acctEmail :: string
  acctPassword :: string

record world =
  store :: "fsdoc list"
  accounts :: "account list"
  blobs :: "(string \<times> jsfile) list"
  revalidated :: "string list"
  idCounter :: nat
  clock :: nat

record env =
  lib :: zlib
  writeDenied :: "string \<Rightarrow> jsval \<Rightarrow> bool"
  readDenied :: "string \<Rightarrow> bool"
  authDenied :: "string \<Rightarrow> string \<Rightarrow> jserror option"
  uploadDenied :: "string \<Rightarrow> jsfile \<Rightarrow> bool"
  urlOf :: "string \<Rightarrow> string option"

definition serverTimestamp :: "world \<Rightarrow> jsval" where
  "serverTimestamp w = JNum (Fin (of_nat (clock w)))"

definition addDoc ::
  "env \<Rightarrow> world \<Rightarrow> string \<Rightarrow> (string \<times> jsval) list \<Rightarrow> jserror + (string \<times> world)" where
  "addDoc E w c d =
     (if writeDenied E c (JObj d) then Inl (JsError ''permission-denied'' ''Write rejected.'')
      else
        let i = ''doc'' @ showNat (idCounter w) in
        Inr (i, w\<lparr>store := store w @ [\<lparr>collName = c, docId = i, docData = d\<rparr>],
                  idCounter := idCounter w + 1\<rparr>))"

definition setDoc ::
  "env \<Rightarrow> world \<Rightarrow> string \<Rightarrow> string \<Rightarrow> (string \<times> jsval) list \<Rightarrow> jserror + world" where
  "setDoc E w c i d =
     (if writeDenied E c (JObj d) then Inl (JsError ''permission-denied'' ''Write rejected.'')
      else
        Inr (w\<lparr>store := filter (\<lambda>x. \<not> (collName x = c \<and> docId x = i)) (store w)
                         @ [\<lparr>collName = c, docId = i, docData = d\<rparr>]\<rparr>))"

text \<open>\<^verbatim>\<open>updateDoc\<close> merges fields into an existing document and fails when there is none.\<close>

definition mergeFields ::
  "(string \<times> jsval) list \<Rightarrow> (string \<times> jsval) list \<Rightarrow> (string \<times> jsval) list" where
  "mergeFields d upd = foldl (\<lambda>acc (k, v). AList.update k v acc) d upd"

definition updateDoc ::
  "env \<Rightarrow> world \<Rightarrow> string \<Rightarrow> string \<Rightarrow> (string \<times> jsval) list \<Rightarrow> jserror + world" where
  "updateDoc E w c i upd =
     (if writeDenied E c (JObj upd) then Inl (JsError ''permission-denied'' ''Write rejected.'')
      else if \<not> list_ex (\<lambda>x. collName x = c \<and> docId x = i) (store w)
      then Inl (JsError ''not-found'' ''No document to update.'')
      else
        Inr (w\<lparr>store := map (\<lambda>x. if collName x = c \<and> docId x = i
                                   then x\<lparr>docData := mergeFields (docData x) upd\<rparr>
                                   else x) (store w)\<rparr>))"

text \<open>\<^verbatim>\<open>getDocs(query(collection(db, c), where(f, "==", v)))\<close>.\<close>

definition getDocsWhere ::
  "env \<Rightarrow> world \<Rightarrow> string \<Rightarrow> string \<Rightarrow> jsval \<Rightarrow> jserror + fsdoc list" where
  "getDocsWhere E w c f v =
     (if readDenied E c then Inl (JsError ''permission-denied'' ''Read rejected.'')
      else Inr (filter (\<lambda>x. collName x = c \<and> has_key (docData x) f \<and> get (docData x) f = v)
                  (store w)))"

text \<open>
  \<^verbatim>\<open>createUserWithEmailAndPassword\<close>: the service may refuse the credentials; it
  refuses a login identifier that is already taken with the code
  \<^verbatim>\<open>auth/email-already-in-use\<close>; otherwise it creates the account.
\<close>

definition createUserWithEmailAndPassword ::
  "env \<Rightarrow> world \<Rightarrow> string \<Rightarrow> string \<Rightarrow> jserror + (string \<times> world)" where
  "createUserWithEmailAndPassword E w e pw =
     (case authDenied E e pw of
        Some err \<Rightarrow> Inl err
      | None \<Rightarrow>
          if list_ex (\<lambda>a. acctEmail a = e) (accounts w)
          then Inl (JsError ''auth/email-already-in-use'' ''The email address is already in use.'')
          else
            let u = ''uid'' @ showNat (idCounter w) in
            Inr (u, w\<lparr>accounts := accounts w @ [\<lparr>acctUid = u, acctEmail = e, acctPassword = pw\<rparr>],
                      idCounter := idCounter w + 1\<rparr>))"

definition uploadBytes :: "env \<Rightarrow> world \<Rightarrow> string \<Rightarrow> jsfile \<Rightarrow> jserror + world" where
  "uploadBytes E w p f =
     (if uploadDenied E p f then Inl (JsError ''storage/unauthorized'' ''Upload rejected.'')
      else Inr (w\<lparr>blobs := AList.update p f (blobs w)\<rparr>))"

definition getDownloadURL :: "env \<Rightarrow> string \<Rightarrow> jserror + string" where
  "getDownloadURL E p =
     (case urlOf E p of
        None \<Rightarrow> Inl (JsError ''storage/object-not-found'' ''No retrieval URL.'')
      | Some u \<Rightarrow> Inr u)"

definition revalidatePath :: "world \<Rightarrow> string \<Rightarrow> world" where
  "revalidatePath w p = w\<lparr>revalidated := revalidated w @ [p]\<rparr>"

section \<open>Submission handlers\<close>

record response =
  success :: bool
  message :: string
  errors :: "(string \<times> string list) list option"
  extras :: "(string \<times> string) list"

definition reply :: "bool \<Rightarrow> string \<Rightarrow> response" where
  "reply ok m = \<lparr>success = ok, message = m, errors = None, extras = []\<rparr>"

definition invalid :: "string \<Rightarrow> issue list \<Rightarrow> response" where
  "invalid m is = \<lparr>success = False, message = m, errors = Some (fieldErrors is), extras = []\<rparr>"

text \<open>The object spread \<^verbatim>\<open>{...v}\<close> and the string a validated field holds.\<close>

fun spread :: "jsval \<Rightarrow> (string \<times> jsval) list" where
  "spread (JObj kvs) = kvs"
| "spread _ = []"

fun strOf :: "jsval \<Rightarrow> string" where
  "strOf (JStr s) = s"
| "strOf _ = []"

subsection \<open>Daily status report\<close>

definition dsrSchema :: zschema where
  "dsrSchema = ZObject
     [(''description'', ZString [Min 10 ''Description is required.'']),
      (''hasTravelled'', ZDefault ZBoolean (JBool False)),
      (''openingKm'', ZOptional (ZNumber True [])),
      (''closingKm'', ZOptional (ZNumber True [])),
      (''employeeId'', ZString []),
      (''employeeName'', ZString [])]"

definition submitDsr :: "env \<Rightarrow> world \<Rightarrow> jsval \<Rightarrow> response \<times> world" where
  "submitDsr E w data =
     (case safeParse (lib E) dsrSchema data of
        Inl is \<Rightarrow> (invalid ''Invalid data.'' is, w)
      | Inr out \<Rightarrow>
          (case addDoc E w ''dsr'' (AList.update ''date'' (serverTimestamp w) (spread out)) of
             Inl err \<Rightarrow> (reply False ''Failed to submit DSR.'', w)
           | Inr (i, w') \<Rightarrow> (reply True ''DSR submitted successfully.'', w')))"

text \<open>
  The schema of the report form (the DSR page) has the same fields without the employee
  and adds the cross-field refinement on the travel distances.
\<close>

definition travelRefinement :: "jsval \<Rightarrow> bool" where
  "travelRefinement data =
     (let d = spread data in
      if get d ''hasTravelled'' = JBool True then
        get d ''openingKm'' \<noteq> JUndefined \<and> get d ''closingKm'' \<noteq> JUndefined
        \<and> num_less (ToNumber (get d ''openingKm'')) (ToNumber (get d ''closingKm''))
      else True)"

definition dsrFormSchema :: zschema where
  "dsrFormSchema = ZRefine
     (ZObject
        [(''description'',
            ZString [Min 10 ''Please provide a detailed description of your work.'']),
         (''hasTravelled'', ZDefault ZBoolean (JBool False)),
         (''openingKm'', ZOptional (ZNumber True [])),
         (''closingKm'', ZOptional (ZNumber True []))])
     travelRefinement
     ''Closing KM must be greater than Opening KM.''
     [Key ''closingKm'']"

subsection \<open>Call log\<close>

definition callLogSchema :: zschema where
  "callLogSchema = ZObject
     [(''clientName'', ZString [Min 2 ''Client name is required.'']),
      (''clientMobile'', ZString [Min 10 ''A valid mobile number is required.'']),
      (''topic'', ZString [Min 5 ''Topic is required.'']),
      (''duration'', ZNumber True [(1, ''Duration must be at least 1 minute.'')]),
      (''employeeId'', ZString []),
      (''employeeName'', ZString [])]"

definition logCall :: "env \<Rightarrow> world \<Rightarrow> jsval \<Rightarrow> response \<times> world" where
  "logCall E w data =
     (case safeParse (lib E) callLogSchema data of
        Inl is \<Rightarrow> (invalid ''Invalid data.'' is, w)
      | Inr out \<Rightarrow>
          (case addDoc E w ''callLogs'' (AList.update ''date'' (serverTimestamp w) (spread out)) of
             Inl err \<Rightarrow> (reply False ''Failed to log call.'', w)
           | Inr (i, w') \<Rightarrow> (reply True ''Call logged successfully.'', w')))"

subsection \<open>Earnings\<close>

definition earningItemSchema :: zschema where
  "earningItemSchema = ZObject
     [(''description'', ZString [Min 3 ''Description is required.'']),
      (''amount'', ZNumber True [(1, ''Amount must be greater than 0.'')])]"

definition earningsSchema :: zschema where
  "earningsSchema = ZObject
     [(''earnings'', ZArray earningItemSchema (Some (1, ''Please add at least one earning.''))),
      (''employeeId'', ZString []),
      (''employeeName'', ZString [])]"

text \<open>
  The writes of \<^verbatim>\<open>Promise.all\<close>: every write is issued, the ones the store accepts
  are kept, and the errors of the others are collected.
\<close>

fun addAll ::
  "env \<Rightarrow> world \<Rightarrow> string \<Rightarrow> (string \<times> jsval) list list \<Rightarrow> jserror list \<times> world" where
  "addAll E w c [] = ([], w)"
| "addAll E w c (d # ds) =
     (case addDoc E w c d of
        Inl err \<Rightarrow> (case addAll E w c ds of (errs, w') \<Rightarrow> (err # errs, w'))
      | Inr (i, w1) \<Rightarrow> addAll E w1 c ds)"

fun elems :: "jsval \<Rightarrow> jsval list" where
  "elems (JArr xs) = xs"
| "elems _ = []"

definition earningDoc :: "world \<Rightarrow> jsval \<Rightarrow> jsval \<Rightarrow> jsval \<Rightarrow> (string \<times> jsval) list" where
  "earningDoc w employeeId employeeName earning =
     AList.update ''date'' (serverTimestamp w)
       (AList.update ''employeeName'' employeeName
          (AList.update ''employeeId'' employeeId (spread earning)))"

definition submitEarnings :: "env \<Rightarrow> world \<Rightarrow> jsval \<Rightarrow> response \<times> world" where
  "submitEarnings E w data =
     (case safeParse (lib E) earningsSchema data of
        Inl is \<Rightarrow> (invalid ''Invalid data.'' is, w)
      | Inr out \<Rightarrow>
          (let employeeId = get (spread out) ''employeeId'';
               employeeName = get (spread out) ''employeeName''
           in case addAll E w ''earnings''
                     (map (earningDoc w employeeId employeeName)
                        (elems (get (spread out) ''earnings''))) of
                ([], w') \<Rightarrow> (reply True ''Earnings submitted successfully.'', w')
              | (err # errs, w') \<Rightarrow> (reply False ''Failed to submit earnings.'', w')))"

subsection \<open>Employee registration\<close>

definition registrationSchema :: zschema where
  "registrationSchema = ZObject
     [(''fullName'', ZString [Min 3 ''Full name must be at least 3 characters.'']),
      (''mobile'', ZString [Min 10 ''A valid 10-digit mobile number is required.'',
                           Max 10 ''A valid 10-digit mobile number is required.'']),
      (''personalEmail'', ZString [Email ''Please enter a valid personal email.'']),
      (''userId'', ZRefine (ZString [Min 3 ''User ID is required.''])
                     (\<lambda>val. suffix ''@zensolve.in'' (strOf val))
                     ''User ID must end with @zensolve.in'' []),
      (''password'', ZString [Min 6 ''Password must be at least 6 characters.'']),
      (''district'', ZString [Min 2 ''District is required.'']),
      (''state'', ZString [Min 2 ''State is required.'']),
      (''pincode'', ZString [Length 6 ''Pincode must be 6 digits.''])]"

definition registerEmployee :: "env \<Rightarrow> world \<Rightarrow> jsval \<Rightarrow> response \<times> world" where
  "registerEmployee E w data =
     (case safeParse (lib E) registrationSchema data of
        Inl is \<Rightarrow> (invalid ''Invalid registration data. Please check all fields.'' is, w)
      | Inr out \<Rightarrow>
          (let d = spread out;
               failed = (\<lambda>err w'.
                 (reply False
                    (if code err = ''auth/email-already-in-use''
                     then ''This User ID is already taken. Please try with a different User ID.''
                     else if code err = ''auth/weak-password''
                     then ''The password is too weak. It must be at least 6 characters long.''
                     else ''Failed to register employee. Please try again.''), w'))
           in case createUserWithEmailAndPassword E w
                     (strOf (get d ''userId'')) (strOf (get d ''password'')) of
                Inl err \<Rightarrow> failed err w
              | Inr (u, w1) \<Rightarrow>
                  (case setDoc E w1 ''employees'' u
                          [(''name'', get d ''fullName''),
                           (''userId'', get d ''userId''),
                           (''mobile'', get d ''mobile''),
                           (''personalEmail'', get d ''personalEmail''),
                           (''district'', get d ''district''),
                           (''state'', get d ''state''),
                           (''pincode'', get d ''pincode''),
                           (''createdAt'', serverTimestamp w1),
                           (''status'', JStr ''active'')] of
                     Inl err \<Rightarrow> failed err w1
                   | Inr w2 \<Rightarrow>
                       (\<lparr>success = True, message = ''Employee registered successfully!'',
                         errors = None,
                         extras = [(''userId'', strOf (get d ''userId'')),
                                   (''password'', strOf (get d ''password''))]\<rparr>,
                        revalidatePath w2 ''/admin/employees''))))"

subsection \<open>Form data\<close>

text \<open>
  A \<^verbatim>\<open>FormData\<close> is a sequence of entries, each a string or a file.
  \<^verbatim>\<open>Object.fromEntries\<close> keeps the last entry of a key, \<^verbatim>\<open>get\<close> returns the first one
  or null, \<^verbatim>\<open>getAll\<close> returns all of them.
\<close>

type_synonym formdata = "(string \<times> jsval) list"

definition fromEntries :: "formdata \<Rightarrow> (string \<times> jsval) list" where
  "fromEntries fd = foldl (\<lambda>acc (k, v). AList.update k v acc) [] fd"

definition formGet :: "formdata \<Rightarrow> string \<Rightarrow> jsval" where
  "formGet fd k = (case map_of fd k of None \<Rightarrow> JNull | Some v \<Rightarrow> v)"

definition formGetAll :: "formdata \<Rightarrow> string \<Rightarrow> jsval list" where
  "formGetAll fd k = map snd (filter (\<lambda>(k', v). k' = k) fd)"

subsection \<open>Newsletter subscription\<close>

definition newsletterSchema :: zschema where
  "newsletterSchema = ZObject
     [(''email'', ZString [Email ''Please enter a valid email address.''])]"

definition subscribeToNewsletter :: "env \<Rightarrow> world \<Rightarrow> formdata \<Rightarrow> response \<times> world" where
  "subscribeToNewsletter E w formData =
     (case safeParse (lib E) newsletterSchema (JObj [(''email'', formGet formData ''email'')]) of
        Inl is \<Rightarrow> (reply False ''Invalid email address.'', w)
      | Inr out \<Rightarrow>
          (let failed = (reply False ''Something went wrong. Please try again later.'', w) in
           case getDocsWhere E w ''newsletterSubscribers'' ''email'' (get (spread out) ''email'') of
             Inl err \<Rightarrow> failed
           | Inr existingSubscriber \<Rightarrow>
               if existingSubscriber \<noteq> [] then (reply True ''You are already subscribed!'', w)
               else
                 (case addDoc E w ''newsletterSubscribers''
                         [(''email'', get (spread out) ''email''),
                          (''subscribedAt'', serverTimestamp w)] of
                    Inl err \<Rightarrow> failed
                  | Inr (i, w1) \<Rightarrow>
                      (reply True ''Thank you for subscribing!'',
                       revalidatePath w1 ''/admin/newsletter''))))"

subsection \<open>Membership verification\<close>

definition verifyMembershipSchema :: zschema where
  "verifyMembershipSchema = ZObject
     [(''membershipId'', ZString []),
      (''email'', ZString [Email ''Invalid email'']),
      (''password'', ZString [])]"

text \<open>
  The second \<^verbatim>\<open>updateDoc\<close> sits inside the \<^verbatim>\<open>catch\<close> block: when it fails, the
  handler itself throws, which is the left summand of the result.
\<close>

definition verifyMembership ::
  "env \<Rightarrow> world \<Rightarrow> jsval \<Rightarrow> (jserror + response) \<times> world" where
  "verifyMembership E w data =
     (case safeParse (lib E) verifyMembershipSchema data of
        Inl is \<Rightarrow> (Inr (reply False ''Invalid data.''), w)
      | Inr out \<Rightarrow>
          (let membershipId = strOf (get (spread out) ''membershipId'');
               email = strOf (get (spread out) ''email'');
               password = strOf (get (spread out) ''password'');
               caught = (\<lambda>err w'.
                 if code err = ''auth/email-already-in-use'' then
                   (case updateDoc E w' ''memberships'' membershipId
                           [(''status'', JStr ''verified'')] of
                      Inl err' \<Rightarrow> (Inl err', w')
                    | Inr w'' \<Rightarrow>
                        (Inr (reply True ''User already exists. Membership marked as verified.''),
                         revalidatePath w'' ''/admin/memberships''))
                 else
                   (Inr (reply False (if emessage err \<noteq> [] then emessage err
                                      else ''Failed to verify membership.'')), w'))
           in case createUserWithEmailAndPassword E w email password of
                Inl err \<Rightarrow> caught err w
              | Inr (u, w1) \<Rightarrow>
                  (case updateDoc E w1 ''memberships'' membershipId
                          [(''status'', JStr ''verified'')] of
                     Inl err \<Rightarrow> caught err w1
                   | Inr w2 \<Rightarrow>
                       (Inr (reply True ''Membership verified and user created.''),
                        revalidatePath w2 ''/admin/memberships''))))"

subsection \<open>Job application\<close>

definition applicationSchema :: zschema where
  "applicationSchema = ZObject
     [(''jobId'', ZString []),
      (''fullName'', ZString [Min 2 ''Full name is required.'']),
      (''dob'', ZOptional (ZString [])),
      (''gender'', ZOptional (ZString [])),
      (''mobile'', ZString [Min 10 ''A valid mobile number is required.'']),
      (''email'', ZString [Email ''A valid email address is required.'']),
      (''whatsapp'', ZOptional (ZString [])),
      (''permanentAddress'', ZOptional (ZString [])),
      (''currentAddress'', ZOptional (ZString [])),
      (''city'', ZOptional (ZString [])),
      (''state'', ZOptional (ZString [])),
      (''pincode'', ZOptional (ZString [])),
      (''highestQualification'', ZOptional (ZString [])),
      (''yearOfPassing'', ZOptional (ZString [])),
      (''university'', ZOptional (ZString [])),
      (''specialization'', ZOptional (ZString [])),
      (''hasExperience'', ZEnum [''yes'', ''no'']),
      (''previousCompany'', ZOptional (ZString [])),
      (''designation'', ZOptional (ZString [])),
      (''yearsOfExperience'', ZOptional (ZNumber True [])),
      (''linkedin'', ZOptional (ZString [])),
      (''technicalSkills'', ZOptional (ZString [])),
      (''softSkills'', ZOptional (ZString [])),
      (''certifications'', ZOptional (ZString [])),
      (''languages'', ZOptional (ZArray (ZString []) None)),
      (''preferredRole'', ZOptional (ZString [])),
      (''preferredLocation'', ZOptional (ZString [])),
      (''expectedSalary'', ZOptional (ZString [])),
      (''noticePeriod'', ZOptional (ZString [])),
      (''readyToRelocate'', ZEnum [''yes'', ''no'']),
      (''whyShouldWeHireYou'', ZOptional (ZString [])),
      (''confirmInfo'', ZRefine ZBoolean (\<lambda>val. val = JBool True)
                          ''You must confirm the information is true.'' []),
      (''agreeTerms'', ZRefine ZBoolean (\<lambda>val. val = JBool True)
                         ''You must agree to the terms.'' []),
      (''resumeUrl'', ZOptional (ZString [Url ''Failed to upload resume.'']))]"

definition resumePath :: "string \<Rightarrow> nat \<Rightarrow> string \<Rightarrow> string" where
  "resumePath jobId now name = ''resumes/'' @ jobId @ ''/'' @ showNat now @ ''-'' @ name"

definition applicationInput :: "formdata \<Rightarrow> (string \<times> jsval) list" where
  "applicationInput formData =
     (let rawData = fromEntries formData in
      AList.update ''agreeTerms'' (JBool (get rawData ''agreeTerms'' = JStr ''on''))
        (AList.update ''confirmInfo'' (JBool (get rawData ''confirmInfo'' = JStr ''on''))
           (AList.update ''yearsOfExperience''
              (if truthy (get rawData ''yearsOfExperience'')
               then JNum (ToNumber (get rawData ''yearsOfExperience''))
               else JUndefined)
              (AList.update ''languages'' (JArr (formGetAll formData ''languages''))
                 rawData))))"

text \<open>
  The resume step: nothing to do unless the \<^verbatim>\<open>resume\<close> entry is a file of positive
  size; otherwise the upload, then the retrieval URL stored under \<^verbatim>\<open>resumeUrl\<close>.
\<close>

definition resumeStep ::
  "env \<Rightarrow> world \<Rightarrow> formdata \<Rightarrow> (string \<times> jsval) list
     \<Rightarrow> (jserror + (string \<times> jsval) list) \<times> world" where
  "resumeStep E w formData applicationData =
     (case formGet formData ''resume'' of
        JFile resumeFile \<Rightarrow>
          if fsize resumeFile > 0 then
            (let p = resumePath (strOf (get applicationData ''jobId'')) (clock w)
                       (fname resumeFile)
             in case uploadBytes E w p resumeFile of
                  Inl err \<Rightarrow> (Inl err, w)
                | Inr w1 \<Rightarrow>
                    (case getDownloadURL E p of
                       Inl err \<Rightarrow> (Inl err, w1)
                     | Inr downloadURL \<Rightarrow>
                         (Inr (AList.update ''resumeUrl'' (JStr downloadURL) applicationData),
                          w1)))
          else (Inr applicationData, w)
      | _ \<Rightarrow> (Inr applicationData, w))"

definition applyForJob :: "env \<Rightarrow> world \<Rightarrow> formdata \<Rightarrow> response \<times> world" where
  "applyForJob E w formData =
     (case safeParse (lib E) applicationSchema (JObj (applicationInput formData)) of
        Inl is \<Rightarrow> (invalid ''Invalid application data. Please check all fields.'' is, w)
      | Inr out \<Rightarrow>
          (let failed = reply False ''Failed to submit application. Please try again.'' in
           case resumeStep E w formData (spread out) of
             (Inl err, w1) \<Rightarrow> (failed, w1)
           | (Inr applicationData, w1) \<Rightarrow>
               (case addDoc E w1 ''applications''
                       (AList.update ''submittedAt'' (serverTimestamp w1) applicationData) of
                  Inl err \<Rightarrow> (failed, w1)
                | Inr (i, w2) \<Rightarrow>
                    (reply True
                       ''Application submitted successfully! We will get back to you soon.'',
                     w2))))"

subsection \<open>Job posting\<close>

text \<open>
  \<^verbatim>\<open>s.split(',')\<close> cuts a string at every comma; \<^verbatim>\<open>trim\<close> is \<open>trimWS\<close>. A bound
  given to \<^verbatim>\<open>.min\<close> without a message reports the library's default message.
\<close>

fun splitOn :: "char \<Rightarrow> string \<Rightarrow> string list" where
  "splitOn sep [] = [[]]"
| "splitOn sep (c # cs) =
     (if c = sep then [] # splitOn sep cs
      else (case splitOn sep cs of
              [] \<Rightarrow> [[c]]
            | piece # pieces \<Rightarrow> (c # piece) # pieces))"

definition jobSchema :: zschema where
  "jobSchema = ZObject
     [(''title'', ZString [Min 3 ''Title is required.'']),
      (''company'', ZString [Min 2 ''Company name is required.'']),
      (''location'', ZString [Min 2 ''Location is required.'']),
      (''type'', ZString [Min 1 ''Job type is required.'']),
      (''workMode'', ZString [Min 1 ''Work mode is required.'']),
      (''experienceMin'',
         ZOptional (ZNumber True [(0, ''Number must be greater than or equal to 0'')])),
      (''experienceMax'',
         ZOptional (ZNumber True [(0, ''Number must be greater than or equal to 0'')])),
      (''salaryMin'',
         ZOptional (ZNumber True [(0, ''Number must be greater than or equal to 0'')])),
      (''salaryMax'',
         ZOptional (ZNumber True [(0, ''Number must be greater than or equal to 0'')])),
      (''department'', ZString [Min 1 ''Department is required.'']),
      (''companyType'', ZString [Min 1 ''Company type is required.'']),
      (''roleCategory'', ZString [Min 1 ''Role category is required.'']),
      (''education'', ZString [Min 1 ''Education is required.'']),
      (''industry'', ZString [Min 1 ''Industry is required.'']),
      (''description'', ZString [Min 10 ''Description is required.'']),
      (''tags'', ZOptional (ZString []))]"

definition addJob :: "env \<Rightarrow> world \<Rightarrow> jsval \<Rightarrow> response \<times> world" where
  "addJob E w data =
     (case safeParse (lib E) jobSchema data of
        Inl is \<Rightarrow> (invalid ''Invalid job data. Please check all fields.'' is, w)
      | Inr jobData \<Rightarrow>
          (let tagsArray =
                 (if truthy (get (spread jobData) ''tags'')
                  then map (\<lambda>tag. JStr (trimWS tag))
                         (splitOn CHR '','' (strOf (get (spread jobData) ''tags'')))
                  else [])
           in case addDoc E w ''jobs''
                     (AList.update ''postedAt'' (serverTimestamp w)
                        (AList.update ''tags'' (JArr tagsArray) (spread jobData))) of
                Inl err \<Rightarrow> (reply False ''Failed to add job. Please try again.'', w)
              | Inr (i, w1) \<Rightarrow>
                  (reply True ''Job added successfully!'',
                   revalidatePath (revalidatePath w1 ''/jobs'') ''/admin'')))"

section \<open>Reports\<close>

subsection \<open>The travel column of the DSR table\<close>

text \<open>
  \<^verbatim>\<open>log.hasTravelled && log.closingKm && log.openingKm ? (log.closingKm - log.openingKm) : 'N/A'\<close>
\<close>

datatype cell = Distance jsnum | NotApplicable

definition travelCell :: "(string \<times> jsval) list \<Rightarrow> cell" where
  "travelCell row =
     (if truthy (get row ''hasTravelled'') \<and> truthy (get row ''closingKm'')
         \<and> truthy (get row ''openingKm'')
      then Distance (num_sub (ToNumber (get row ''closingKm'')) (ToNumber (get row ''openingKm'')))
      else NotApplicable)"

subsection \<open>The statistics of the employee dashboard\<close>

text \<open>
  \<^verbatim>\<open>totalEarnings += doc.data().amount || 0\<close>. The running total is a number as long
  as every amount is a number, a boolean or falsy; with any other amount the addition
  becomes a string concatenation, which is \<open>NotNumeric\<close> here.
\<close>

datatype total = Amount jsnum | NotNumeric

definition orZero :: "jsval \<Rightarrow> jsval" where
  "orZero v = (if truthy v then v else JNum (Fin 0))"

fun addAmount :: "total \<Rightarrow> jsval \<Rightarrow> total" where
  "addAmount NotNumeric v = NotNumeric"
| "addAmount (Amount t) v =
     (case orZero v of
        JNum n \<Rightarrow> Amount (num_add t n)
      | JBool b \<Rightarrow> Amount (num_add t (ToNumber (JBool b)))
      | _ \<Rightarrow> NotNumeric)"

definition sumAmounts :: "fsdoc list \<Rightarrow> total" where
  "sumAmounts docs = foldl (\<lambda>t d. addAmount t (get (docData d) ''amount'')) (Amount (Fin 0)) docs"

text \<open>
  \<^verbatim>\<open>getCountFromServer(query(collection(db, c), where(f1, "==", v1), ...))\<close>: the number
  of documents of the collection that satisfy every condition.
\<close>

definition getCountFromServer ::
  "env \<Rightarrow> world \<Rightarrow> string \<Rightarrow> (string \<times> jsval) list \<Rightarrow> jserror + nat" where
  "getCountFromServer E w c conds =
     (if readDenied E c then Inl (JsError ''permission-denied'' ''Read rejected.'')
      else Inr (length (filter (\<lambda>x. collName x = c
                                     \<and> list_all (\<lambda>(f, v). has_key (docData x) f
                                                            \<and> get (docData x) f = v) conds)
                          (store w))))"

text \<open>
  The page holds four statistics, all 0 at first, and a loading flag. \<^verbatim>\<open>fetchData\<close>
  asks for the number of reports, the number of calls, the Earning documents and the
  number of pending tasks of the employee, in this order and inside one \<^verbatim>\<open>try\<close>
  block. The statistics are replaced only after all four queries are answered: when
  one of them fails the error is logged and the statistics stay what they were. The
  loading flag is cleared in both cases. Without a signed-in user nothing is fetched.
\<close>

record dashboardStats =
  dsrCount :: nat
  callCount :: nat
  totalEarnings :: total
  pendingTasks :: nat

record dashboardPage =
  stats :: dashboardStats
  isLoading :: bool


definition fetchData :: "env \<Rightarrow> world \<Rightarrow> string \<Rightarrow> dashboardPage \<Rightarrow> dashboardPage" where
  "fetchData E w userUid page =
     (let failed = page\<lparr>isLoading := False\<rparr> in
      case getCountFromServer E w ''dsr'' [(''employeeId'', JStr userUid)] of
        Inl err \<Rightarrow> failed
      | Inr dsrs \<Rightarrow>
          (case getCountFromServer E w ''callLogs'' [(''employeeId'', JStr userUid)] of
             Inl err \<Rightarrow> failed
           | Inr calls \<Rightarrow>
               (case getDocsWhere E w ''earnings'' ''employeeId'' (JStr userUid) of
                  Inl err \<Rightarrow> failed
                | Inr earningsSnapshot \<Rightarrow>
                    (case getCountFromServer E w ''tasks''
                            [(''employeeId'', JStr userUid), (''status'', JStr ''pending'')] of
                       Inl err \<Rightarrow> failed
                     | Inr tasks \<Rightarrow>
                         \<lparr>stats = \<lparr>dsrCount = dsrs, callCount = calls,
                                   totalEarnings = sumAmounts earningsSnapshot,
                                   pendingTasks = tasks\<rparr>,
                          isLoading = False\<rparr>))))"

definition dashboardEffect ::
  "env \<Rightarrow> world \<Rightarrow> string option \<Rightarrow> dashboardPage \<Rightarrow> dashboardPage" where
  "dashboardEffect E w user page =
     (case user of None \<Rightarrow> page | Some userUid \<Rightarrow> fetchData E w userUid page)"

section \<open>Auxiliary definitions for the properties\<close>

text \<open>The results of the fields of an object schema, in the order of the shape.\<close>

definition fieldResults ::
  "zlib \<Rightarrow> (string \<times> zschema) list \<Rightarrow> (string \<times> jsval) list \<Rightarrow> (string \<times> presult) list" where
  "fieldResults L shape kvs = map (\<lambda>(k, sch). (k, parse L sch [Key k] (get kvs k))) shape"

text \<open>
  An environment in which no service refuses anything, with simple stand-ins for the
  library's patterns, and a world that holds nothing yet. They serve as concrete
  inputs.
\<close>

definition exampleLib :: zlib where
  "exampleLib = \<lparr>isEmail = (\<lambda>s. CHR ''@'' \<in> set s), isUrl = (\<lambda>s. prefix ''https://'' s)\<rparr>"

definition exampleEnv :: env where
  "exampleEnv =
     \<lparr>lib = exampleLib,
      writeDenied = (\<lambda>c v. False),
      readDenied = (\<lambda>c. False),
      authDenied = (\<lambda>e pw. None),
      uploadDenied = (\<lambda>p f. False),
      urlOf = (\<lambda>p. Some (''https://files.example/'' @ p))\<rparr>"

definition emptyWorld :: world where
  "emptyWorld =
     \<lparr>store = [], accounts = [], blobs = [], revalidated = [], idCounter = 0, clock = 1700000000\<rparr>"

definition bobRegistration :: "(string \<times> jsval) list" where
  "bobRegistration =
     [(''fullName'', JStr ''Bob Builder''),
      (''mobile'', JStr ''9876543210''),
      (''personalEmail'', JStr ''bob@gmail.com''),
      (''userId'', JStr ''bob@gmail.com''),
      (''password'', JStr ''secret12''),
      (''district'', JStr ''Pune''),
      (''state'', JStr ''Maharashtra''),
      (''pincode'', JStr ''411001'')]"

text \<open>A report with travel whose closing reading is below the opening reading.\<close>

definition decreasingDsr :: "(string \<times> jsval) list" where
  "decreasingDsr =
     [(''description'', JStr ''Visited the client site''),
      (''hasTravelled'', JBool True),
      (''openingKm'', JNum (Fin 15000)),
      (''closingKm'', JNum (Fin 14900)),
      (''employeeId'', JStr ''emp1''),
      (''employeeName'', JStr ''Bob'')]"

text \<open>An earnings submission of one line item of half a rupee.\<close>

definition halfRupee :: "(string \<times> jsval) list" where
  "halfRupee =
     [(''earnings'', JArr [JObj [(''description'', JStr ''Consulting fee''),
                                (''amount'', JNum (Fin (1 / 2)))]]),
      (''employeeId'', JStr ''emp1''),
      (''employeeName'', JStr ''Bob'')]"






text \<open>
  Earning documents with the amounts 10.1, 20.2 and 30.3, that is, with the doubles
  nearest to them.
\<close>

definition fractionalEarnings :: "fsdoc list" where
  "fractionalEarnings =
     [\<lparr>collName = ''earnings'', docId = ''doc0'',
       docData = [(''amount'', JNum (toDouble (101 / 10))), (''employeeId'', JStr ''emp1'')]\<rparr>,
      \<lparr>collName = ''earnings'', docId = ''doc1'',
       docData = [(''amount'', JNum (toDouble (202 / 10))), (''employeeId'', JStr ''emp1'')]\<rparr>,
      \<lparr>collName = ''earnings'', docId = ''doc2'',
       docData = [(''amount'', JNum (toDouble (303 / 10))), (''employeeId'', JStr ''emp1'')]\<rparr>]"

text \<open>Earnings submissions with no line item and with two valid line items.\<close>

definition noEarnings :: "(string \<times> jsval) list" where
  "noEarnings =
     [(''earnings'', JArr []), (''employeeId'', JStr ''emp1''), (''employeeName'', JStr ''Bob'')]"

definition twoEarnings :: "(string \<times> jsval) list" where
  "twoEarnings =
     [(''earnings'', JArr [JObj [(''description'', JStr ''Consulting fee''),
                                (''amount'', JStr ''1200'')],
                          JObj [(''description'', JStr ''Referral''),
                                (''amount'', JNum (Fin 300))]]),
      (''employeeId'', JStr ''emp1''),
      (''employeeName'', JStr ''Bob'')]"

definition twoItems :: "jsval list" where
  "twoItems = [JObj [(''description'', JStr ''Consulting fee''), (''amount'', JStr ''1200'')],
               JObj [(''description'', JStr ''Referral''), (''amount'', JNum (Fin 300))]]"

definition twoParsed :: jsval where
  "twoParsed = JObj
     [(''earnings'', JArr [JObj [(''description'', JStr ''Consulting fee''),
                                (''amount'', JNum (Fin 1200))],
                          JObj [(''description'', JStr ''Referral''),
                                (''amount'', JNum (Fin 300))]]),
      (''employeeId'', JStr ''emp1''),
      (''employeeName'', JStr ''Bob'')]"

text \<open>The subscriber documents with a given email, as the lookup of the handler selects them.\<close>

definition subscribersWith :: "world \<Rightarrow> string \<Rightarrow> fsdoc list" where
  "subscribersWith w e =
     filter (\<lambda>x. collName x = ''newsletterSubscribers'' \<and> has_key (docData x) ''email''
                 \<and> get (docData x) ''email'' = JStr e) (store w)"

definition aliceForm :: formdata where
  "aliceForm = [(''email'', JStr ''alice@example.com'')]"

text \<open>
  The membership documents with a given identifier, the test that a document is marked
  verified, and the accounts of the identity service with a given login identifier.
\<close>

definition membershipDocs :: "world \<Rightarrow> string \<Rightarrow> fsdoc list" where
  "membershipDocs w mid =
     filter (\<lambda>x. collName x = ''memberships'' \<and> docId x = mid) (store w)"

definition isVerified :: "fsdoc \<Rightarrow> bool" where
  "isVerified d = (get (docData d) ''status'' = JStr ''verified'')"

definition accountsOf :: "world \<Rightarrow> string \<Rightarrow> account list" where
  "accountsOf w e = filter (\<lambda>a. acctEmail a = e) (accounts w)"

text \<open>The update that marks the membership documents with a given identifier verified.\<close>

definition setVerified :: "string \<Rightarrow> fsdoc \<Rightarrow> fsdoc" where
  "setVerified mid x =
     (if collName x = ''memberships'' \<and> docId x = mid
      then x\<lparr>docData := mergeFields (docData x) [(''status'', JStr ''verified'')]\<rparr>
      else x)"

text \<open>A world with one pending membership, and the request to verify it.\<close>

definition pendingWorld :: world where
  "pendingWorld = emptyWorld\<lparr>store :=
     [\<lparr>collName = ''memberships'', docId = ''m1'',
       docData = [(''name'', JStr ''Carol''), (''email'', JStr ''carol@example.com''),
                  (''phone'', JStr ''9876543210''), (''status'', JStr ''pending'')]\<rparr>]\<rparr>"

definition verifyCarol :: "(string \<times> jsval) list" where
  "verifyCarol =
     [(''membershipId'', JStr ''m1''), (''email'', JStr ''carol@example.com''),
      (''password'', JStr ''9876543210'')]"

text \<open>A complete application with a resume of ten bytes, and what validation makes of it.\<close>

definition annForm :: formdata where
  "annForm =
     [(''jobId'', JStr ''job42''),
      (''fullName'', JStr ''Ann Lee''),
      (''mobile'', JStr ''9876543210''),
      (''email'', JStr ''ann@example.com''),
      (''hasExperience'', JStr ''no''),
      (''readyToRelocate'', JStr ''yes''),
      (''confirmInfo'', JStr ''on''),
      (''agreeTerms'', JStr ''on''),
      (''resume'', JFile (File ''cv.pdf'' 10))]"

definition annParsed :: "(string \<times> jsval) list" where
  "annParsed =
     [(''jobId'', JStr ''job42''),
      (''fullName'', JStr ''Ann Lee''),
      (''mobile'', JStr ''9876543210''),
      (''email'', JStr ''ann@example.com''),
      (''hasExperience'', JStr ''no''),
      (''yearsOfExperience'', JUndefined),
      (''languages'', JArr []),
      (''readyToRelocate'', JStr ''yes''),
      (''confirmInfo'', JBool True),
      (''agreeTerms'', JBool True)]"

text \<open>Environments whose attachment store refuses the upload, or yields no retrieval URL.\<close>

definition uploadRefusedEnv :: env where
  "uploadRefusedEnv = exampleEnv\<lparr>uploadDenied := (\<lambda>p f. True)\<rparr>"

definition noUrlEnv :: env where
  "noUrlEnv = exampleEnv\<lparr>urlOf := (\<lambda>p. None)\<rparr>"

definition annPath :: string where
  "annPath = ''resumes/job42/1700000000-cv.pdf''"

definition annDoc :: "(string \<times> jsval) list" where
  "annDoc = annParsed @ [(''resumeUrl'', JStr (''https://files.example/'' @ annPath)),
                         (''submittedAt'', JNum (Fin 1700000000))]"

text \<open>
  The characters that occur in numeric literals: white space, hexadecimal digits, signs,
  the decimal point, the base letters and the letters of \<^verbatim>\<open>Infinity\<close>.
\<close>

definition numericChar :: "char \<Rightarrow> bool" where
  "numericChar c = (isWhiteSpace c \<or> inBase 16 c \<or> c \<in> set ''+-.xXoOInity'')"

text \<open>
  A report whose opening reading is the empty string and whose closing reading is a
  hexadecimal literal, and inputs whose numeric field is the string \<^verbatim>\<open>12px\<close>.
\<close>

definition blankOpeningDsr :: "(string \<times> jsval) list" where
  "blankOpeningDsr =
     [(''description'', JStr ''Visited the client site''),
      (''hasTravelled'', JBool True),
      (''openingKm'', JStr []),
      (''closingKm'', JStr ''0x10''),
      (''employeeId'', JStr ''emp1''),
      (''employeeName'', JStr ''Bob'')]"

definition pxDsr :: "(string \<times> jsval) list" where
  "pxDsr =
     [(''description'', JStr ''Visited the client site''),
      (''hasTravelled'', JBool True),
      (''openingKm'', JStr ''12px''),
      (''closingKm'', JNum (Fin 15100)),
      (''employeeId'', JStr ''emp1''),
      (''employeeName'', JStr ''Bob'')]"

definition pxCall :: "(string \<times> jsval) list" where
  "pxCall =
     [(''clientName'', JStr ''Acme Ltd''),
      (''clientMobile'', JStr ''9876543210''),
      (''topic'', JStr ''Renewal''),
      (''duration'', JStr ''12px''),
      (''employeeId'', JStr ''emp1''),
      (''employeeName'', JStr ''Bob'')]"

definition pxItem :: "(string \<times> jsval) list" where
  "pxItem = [(''description'', JStr ''Consulting fee''), (''amount'', JStr ''12px'')]"

definition pxEarnings :: "(string \<times> jsval) list" where
  "pxEarnings =
     [(''earnings'', JArr [JObj pxItem]),
      (''employeeId'', JStr ''emp1''),
      (''employeeName'', JStr ''Bob'')]"

definition pxForm :: formdata where
  "pxForm =
     [(''jobId'', JStr ''job42''),
      (''fullName'', JStr ''Ann Lee''),
      (''mobile'', JStr ''9876543210''),
      (''email'', JStr ''ann@example.com''),
      (''hasExperience'', JStr ''yes''),
      (''yearsOfExperience'', JStr ''12px''),
      (''readyToRelocate'', JStr ''yes''),
      (''confirmInfo'', JStr ''on''),
      (''agreeTerms'', JStr ''on'')]"

text \<open>
  A job posting whose lower salary bound is the string \<^verbatim>\<open>12px\<close>, and job applications
  that differ in the year of passing only.
\<close>

definition pxJob :: "(string \<times> jsval) list" where
  "pxJob =
     [(''title'', JStr ''Field engineer''),
      (''company'', JStr ''Acme Ltd''),
      (''location'', JStr ''Pune''),
      (''type'', JStr ''Full time''),
      (''workMode'', JStr ''On site''),
      (''salaryMin'', JStr ''12px''),
      (''department'', JStr ''Service''),
      (''companyType'', JStr ''Private''),
      (''roleCategory'', JStr ''Engineering''),
      (''education'', JStr ''Diploma''),
      (''industry'', JStr ''Utilities''),
      (''description'', JStr ''Installs and services meters'')]"

definition passingForm :: "string \<Rightarrow> formdata" where
  "passingForm s =
     [(''jobId'', JStr ''job42''),
      (''fullName'', JStr ''Ann Lee''),
      (''mobile'', JStr ''9876543210''),
      (''email'', JStr ''ann@example.com''),
      (''yearOfPassing'', JStr s),
      (''hasExperience'', JStr ''yes''),
      (''yearsOfExperience'', JStr ''3''),
      (''readyToRelocate'', JStr ''yes''),
      (''confirmInfo'', JStr ''on''),
      (''agreeTerms'', JStr ''on'')]"

section \<open>Properties of numbers\<close>

text \<open>Rounding never gives NaN, and it leaves the integers below \<open>2 ^ 53\<close> as they are.\<close>

lemma toDouble_not_NaN [simp]: "toDouble x \<noteq> NaN"
  by (simp add: toDouble_def Let_def)

lemma bitLength_le: "n < 2 ^ k \<Longrightarrow> bitLength n \<le> k"
proof (induction k arbitrary: n)
  case 0
  then show ?case by simp
next
  case (Suc k)
  show ?case
  proof (cases "n = 0")
    case True
    then show ?thesis by simp
  next
    case False
    have "n div 2 < 2 ^ k" using Suc.prems by auto
    from Suc.IH [OF this] show ?thesis using False by (subst bitLength.simps) simp
  qed
qed

lemma roundHalfEven_of_int [simp]: "roundHalfEven (of_int k) = k"
  by (simp add: roundHalfEven_def)

lemma toDouble_of_nat:
  assumes "n < 2 ^ 53"
  shows "toDouble (of_nat n) = Fin (of_nat n)"
proof (cases "n = 0")
  case True
  then show ?thesis by (simp add: toDouble_def)
next
  case False
  define b where "b = bitLength n"
  have b53: "b \<le> 53" unfolding b_def using assms by (rule bitLength_le)
  have b1: "1 \<le> b" unfolding b_def using False by (subst bitLength.simps) simp
  define m where "m = 53 - b"
  have x1: "(1::rat) \<le> of_nat n" using False by simp
  have bin: "binade \<bar>of_nat n\<bar> = int b - 1"
    using x1 by (simp add: binade_def b_def del: bitLength.simps)
  have mx: "max (int b - 1) (- 1022) - 52 = - int m"
    using b53 b1 by (simp add: m_def)
  have q: "pow2 (- int m) = 1 / 2 ^ m"
    by (cases "m = 0") (simp_all add: pow2_def)
  have quo: "\<bar>of_nat n :: rat\<bar> / (1 / 2 ^ m) = of_int (int (n * 2 ^ m))"
    by simp
  have r: "of_int (roundHalfEven (\<bar>of_nat n :: rat\<bar> / (1 / 2 ^ m))) * (1 / 2 ^ m)
             = (of_nat n :: rat)"
    unfolding quo roundHalfEven_of_int by simp
  have lt: "\<not> (2 ^ 1024 \<le> (of_nat n :: rat))"
  proof -
    have "(of_nat n :: rat) < of_nat (2 ^ 53)" using assms by (simp only: of_nat_less_iff)
    also have "\<dots> \<le> 2 ^ 1024" by simp
    finally show ?thesis by simp
  qed
  have nz: "(of_nat n :: rat) \<noteq> 0" using False by simp
  have nn: "\<not> (of_nat n :: rat) < 0" by simp
  show ?thesis
    unfolding toDouble_def bin mx q Let_def r using lt nz nn by (simp only: if_False)
qed

lemma toDouble_numeral:
  "numeral k < (2::nat) ^ 53 \<Longrightarrow> toDouble (numeral k) = Fin (numeral k)"
  using toDouble_of_nat [of "numeral k"] by simp

lemma toDouble_0 [simp]: "toDouble 0 = Fin 0"
  by (simp add: toDouble_def)

lemma toDouble_1 [simp]: "toDouble 1 = Fin 1"
  using toDouble_of_nat [of 1] by simp

text \<open>Rules that evaluate the rounding of a given rational.\<close>

lemma floor_rat_numeral: "\<lfloor>numeral a / numeral b :: rat\<rfloor> = numeral a div numeral b"
  by (metis floor_divide_of_int_eq of_int_numeral)

lemma ceiling_rat_numeral:
  "\<lceil>numeral a / numeral b :: rat\<rceil> = - (- numeral a div numeral b)"
  by (metis ceiling_divide_eq_div of_int_numeral)

lemmas double_defs = toDouble_def binade_def pow2_def roundHalfEven_def Let_def
  floor_rat_numeral ceiling_rat_numeral

section \<open>Properties of the validation layer\<close>

lemma mergeStatus_Valid: "mergeStatus a b = Valid \<longleftrightarrow> a = Valid \<and> b = Valid"
  by (cases a; cases b) (simp_all add: mergeStatus_def)

lemma foldl_mergeStatus_Valid:
  "foldl mergeStatus a xs = Valid \<longleftrightarrow> a = Valid \<and> (\<forall>x\<in>set xs. x = Valid)"
  by (induction xs arbitrary: a) (auto simp: mergeStatus_Valid)

text \<open>An object schema on an object: all fields valid, or the issues of all fields.\<close>

lemma safeParse_object:
  "safeParse L (ZObject shape) (JObj kvs) =
     (if \<forall>r\<in>set (fieldResults L shape kvs). fst (snd r) = Valid
      then Inr (JObj (map (\<lambda>(k, r). (k, snd (snd r)))
                   (filter (\<lambda>(k, r). snd (snd r) \<noteq> JUndefined \<or> has_key kvs k)
                      (fieldResults L shape kvs))))
      else Inl (concat (map (fst \<circ> snd \<circ> snd) (fieldResults L shape kvs))))"
proof -
  let ?rs = "fieldResults L shape kvs"
  have p: "parse L (ZObject shape) [] (JObj kvs) =
      (foldl mergeStatus Valid (map (fst \<circ> snd) ?rs),
       concat (map (fst \<circ> snd \<circ> snd) ?rs),
       JObj (map (\<lambda>(k, r). (k, snd (snd r)))
                   (filter (\<lambda>(k, r). snd (snd r) \<noteq> JUndefined \<or> has_key kvs k) ?rs)))"
    by (simp add: fieldResults_def Let_def)
  have v: "foldl mergeStatus Valid (map (fst \<circ> snd) ?rs) = Valid
             \<longleftrightarrow> (\<forall>r\<in>set ?rs. fst (snd r) = Valid)"
    by (simp add: foldl_mergeStatus_Valid)
  show ?thesis
    unfolding safeParse_def p using v
    by (cases "foldl mergeStatus Valid (map (fst \<circ> snd) ?rs)") (simp_all del: foldl_map)
qed

lemma safeParse_object_field_invalid:
  assumes "(k, sch) \<in> set shape" and "fst (parse L sch [Key k] (get kvs k)) \<noteq> Valid"
  shows "\<exists>iss. safeParse L (ZObject shape) (JObj kvs) = Inl iss
               \<and> set (fst (snd (parse L sch [Key k] (get kvs k)))) \<subseteq> set iss"
proof -
  have m: "(k, parse L sch [Key k] (get kvs k)) \<in> set (fieldResults L shape kvs)"
    using assms(1) unfolding fieldResults_def by force
  then have "\<not> (\<forall>r\<in>set (fieldResults L shape kvs). fst (snd r) = Valid)"
    using assms(2) by force
  then have "safeParse L (ZObject shape) (JObj kvs)
               = Inl (concat (map (fst \<circ> snd \<circ> snd) (fieldResults L shape kvs)))"
    by (simp only: safeParse_object if_False)
  moreover have "set (fst (snd (parse L sch [Key k] (get kvs k))))
                   \<subseteq> set (concat (map (fst \<circ> snd \<circ> snd) (fieldResults L shape kvs)))"
    using m by force
  ultimately show ?thesis by blast
qed

text \<open>The messages reported for a field are those of the issues whose path starts there.\<close>

lemma map_of_fieldErrors:
  "map_of (fieldErrors iss) k =
     (if \<exists>i\<in>set iss. pathHead i = Some k
      then Some (map msg (filter (\<lambda>i. pathHead i = Some k) iss)) else None)"
proof -
  have "set (List.map_filter pathHead iss) = {k. \<exists>i\<in>set iss. pathHead i = Some k}"
    by (force simp: List.map_filter_def image_iff)
  then show ?thesis
    unfolding fieldErrors_def by (auto simp: map_of_map_restrict restrict_map_def)
qed

lemma fieldErrors_has:
  assumes "i \<in> set iss" and "pathHead i = Some k"
  shows "\<exists>ms. map_of (fieldErrors iss) k = Some ms \<and> msg i \<in> set ms"
proof -
  have "map_of (fieldErrors iss) k = Some (map msg (filter (\<lambda>i. pathHead i = Some k) iss))"
    using assms by (subst map_of_fieldErrors) (simp, blast)
  moreover have "msg i \<in> set (map msg (filter (\<lambda>i. pathHead i = Some k) iss))"
    using assms by force
  ultimately show ?thesis by blast
qed

lemma parse_refined_string:
  "\<not> pred (JStr u) \<Longrightarrow>
   parse L (ZRefine (ZString cs) pred m rp) p (JStr u) =
     (Dirty, checkIssues p (map (scheckFails L u) cs) @ [\<lparr>path = p @ rp, msg = m\<rparr>], JStr u)"
  by (simp add: checked_def)

text \<open>Reading a property after an update, and what a valid string or array field holds.\<close>

lemma get_update: "get (AList.update k v al) k' = (if k' = k then v else get al k')"
  by (simp add: get_def update_conv')

lemma parse_ZString_Valid:
  assumes "fst (parse L (ZString cs) p v) = Valid"
  shows "\<exists>s. v = JStr s \<and> parse L (ZString cs) p v = (Valid, [], JStr s)"
  using assms by (cases v) (auto simp: invalidType_def checked_def split: if_splits)

lemma parse_ZArray_Valid:
  assumes "fst (parse L (ZArray el m) p v) = Valid"
  shows "\<exists>xs ys. v = JArr xs \<and> snd (snd (parse L (ZArray el m) p v)) = JArr ys
                  \<and> length ys = length xs"
  using assms by (cases v) (auto simp: invalidType_def Let_def)

text \<open>The definitions that evaluate validation and the handlers on concrete inputs.\<close>

lemmas number_defs =
  StringToNumber_def trimWS_def isWhiteSpace_def nonDecimal_def unsignedDecimal_def
  isDigit_def exponentPart_def baseVal_def hexVal_def inBase_def scale10_def toDouble_numeral

lemmas eval_defs =
  safeParse_def get_def has_key_def checked_def checkIssues_def List.map_filter_def
  mergeStatus_def invalidType_def Let_def exampleEnv_def exampleLib_def emptyWorld_def
  addDoc_def reply_def serverTimestamp_def pathHead_def fieldErrors_def invalid_def

section \<open>Employee registration rejects a foreign login identifier\<close>

text \<open>
  Claim C6. When the \<open>userId\<close> of a registration does not end with
  \<^verbatim>\<open>@zensolve.in\<close>, \<open>registerEmployee\<close> answers with a validation failure that
  reports the message of the refinement under the field \<open>userId\<close>, and the world is
  unchanged: no account was requested from the identity service and no employee
  document was written.
\<close>

theorem registerEmployee_rejects_foreign_userId:
  assumes "get kvs ''userId'' = JStr u" and "\<not> suffix ''@zensolve.in'' u"
  shows "\<exists>errs ms. registerEmployee E w (JObj kvs) =
            (\<lparr>success = False,
              message = ''Invalid registration data. Please check all fields.'',
              errors = Some errs, extras = []\<rparr>, w)
           \<and> map_of errs ''userId'' = Some ms
           \<and> ''User ID must end with @zensolve.in'' \<in> set ms"
proof -
  let ?sch = "ZRefine (ZString [Min 3 ''User ID is required.''])
                (\<lambda>val. suffix ''@zensolve.in'' (strOf val))
                ''User ID must end with @zensolve.in'' []"
  let ?i = "\<lparr>path = [Key ''userId''], msg = ''User ID must end with @zensolve.in''\<rparr>"
  have uid: "parse (lib E) ?sch [Key ''userId''] (get kvs ''userId'')
        = (Dirty, checkIssues [Key ''userId'']
                    (map (scheckFails (lib E) u) [Min 3 ''User ID is required.'']) @ [?i], JStr u)"
    unfolding assms(1) using assms(2) by (subst parse_refined_string) simp_all
  obtain shape where s1: "registrationSchema = ZObject shape"
    and s2: "(''userId'', ?sch) \<in> set shape"
  proof
    show "registrationSchema = ZObject (case registrationSchema of ZObject sh \<Rightarrow> sh)"
      by (simp add: registrationSchema_def)
    show "(''userId'', ?sch) \<in> set (case registrationSchema of ZObject sh \<Rightarrow> sh)"
      by (simp add: registrationSchema_def)
  qed
  have "fst (parse (lib E) ?sch [Key ''userId''] (get kvs ''userId'')) \<noteq> Valid"
    unfolding uid by simp
  from safeParse_object_field_invalid [OF s2 this]
  obtain iss where sp: "safeParse (lib E) registrationSchema (JObj kvs) = Inl iss"
    and sub: "set (fst (snd (parse (lib E) ?sch [Key ''userId''] (get kvs ''userId''))))
                \<subseteq> set iss"
    unfolding s1 by blast
  have mem: "?i \<in> set iss" using sub unfolding uid by simp
  have "pathHead ?i = Some ''userId''" by (simp add: pathHead_def)
  from fieldErrors_has [OF mem this] show ?thesis
    unfolding registerEmployee_def sp invalid_def by simp
qed

theorem registerEmployee_rejects_foreign_userId_witness:
  "get bobRegistration ''userId'' = JStr ''bob@gmail.com''
   \<and> \<not> suffix ''@zensolve.in'' ''bob@gmail.com''
   \<and> (\<exists>errs ms. registerEmployee exampleEnv emptyWorld (JObj bobRegistration) =
            (\<lparr>success = False,
              message = ''Invalid registration data. Please check all fields.'',
              errors = Some errs, extras = []\<rparr>, emptyWorld)
           \<and> map_of errs ''userId'' = Some ms
           \<and> ''User ID must end with @zensolve.in'' \<in> set ms)"
proof -
  have g: "get bobRegistration ''userId'' = JStr ''bob@gmail.com''"
    by (simp add: bobRegistration_def get_def)
  have n: "\<not> suffix ''@zensolve.in'' ''bob@gmail.com''"
    by (simp add: suffix_to_prefix)
  show ?thesis
    using g n registerEmployee_rejects_foreign_userId [OF g n, of exampleEnv emptyWorld]
    by blast
qed

section \<open>The DSR handler does not compare the travel readings\<close>

text \<open>
  Claim C1 says that \<open>submitDsr\<close> fails validation for a report with travel unless
  both readings are given and the closing one is the larger. The schema of the handler
  has the two optional readings and no refinement across them; the refinement is only
  in the schema of the form. For the report with opening 15000 and closing 14900 the
  handler's validation succeeds, the handler answers success and stores the report,
  while the form's schema rejects the same data with the message of its refinement.
\<close>

theorem submitDsr_accepts_closing_below_opening:
  "safeParse (lib exampleEnv) dsrSchema (JObj decreasingDsr) = Inr (JObj decreasingDsr)
   \<and> fst (submitDsr exampleEnv emptyWorld (JObj decreasingDsr))
       = reply True ''DSR submitted successfully.''
   \<and> map docData (store (snd (submitDsr exampleEnv emptyWorld (JObj decreasingDsr))))
       = [decreasingDsr @ [(''date'', JNum (Fin 1700000000))]]
   \<and> safeParse (lib exampleEnv) dsrFormSchema (JObj decreasingDsr)
       = Inl [\<lparr>path = [Key ''closingKm''],
               msg = ''Closing KM must be greater than Opening KM.''\<rparr>]"
proof -
  have a1: "safeParse (lib exampleEnv) dsrSchema (JObj decreasingDsr) = Inr (JObj decreasingDsr)"
    by (simp add: eval_defs dsrSchema_def decreasingDsr_def)
  have a2: "fst (submitDsr exampleEnv emptyWorld (JObj decreasingDsr))
              = reply True ''DSR submitted successfully.''"
    by (simp add: submitDsr_def a1) (simp add: eval_defs)
  have a3: "map docData (store (snd (submitDsr exampleEnv emptyWorld (JObj decreasingDsr))))
              = [decreasingDsr @ [(''date'', JNum (Fin 1700000000))]]"
    by (simp add: submitDsr_def a1) (simp add: eval_defs decreasingDsr_def)
  have a4: "safeParse (lib exampleEnv) dsrFormSchema (JObj decreasingDsr)
              = Inl [\<lparr>path = [Key ''closingKm''],
                      msg = ''Closing KM must be greater than Opening KM.''\<rparr>]"
    by (simp add: eval_defs dsrFormSchema_def decreasingDsr_def travelRefinement_def)
  show ?thesis using a1 a2 a3 a4 by blast
qed

section \<open>The minimum of an earnings amount is 1\<close>

text \<open>
  Claim C8 says that an amount is accepted exactly when it is greater than 0. The
  schema checks \<^verbatim>\<open>min(1)\<close> and reports a smaller amount with the message
  \<^verbatim>\<open>Amount must be greater than 0.\<close>: the positive amount one half is rejected with
  that message, and nothing is written.
\<close>

theorem submitEarnings_rejects_half_rupee:
  "submitEarnings exampleEnv emptyWorld (JObj halfRupee)
     = (\<lparr>success = False, message = ''Invalid data.'',
         errors = Some [(''earnings'', [''Amount must be greater than 0.''])],
         extras = []\<rparr>, emptyWorld)"
proof -
  have "safeParse (lib exampleEnv) earningsSchema (JObj halfRupee)
          = Inl [\<lparr>path = [Key ''earnings'', Idx 0, Key ''amount''],
                  msg = ''Amount must be greater than 0.''\<rparr>]"
    by (simp add: eval_defs earningsSchema_def earningItemSchema_def halfRupee_def
          enumerate_eq_zip)
  then show ?thesis
    by (simp add: submitEarnings_def) (simp add: eval_defs)
qed

section \<open>The travel column treats a reading of zero as absent\<close>

text \<open>
  Claim C9 says that the distance is shown exactly when the report has travel and both
  readings are present. The table tests the readings for truthiness, and the number 0
  is falsy: a stored report with travel, opening reading 0 and closing reading 50 is
  shown as not applicable, where the claim gives the distance 50.
\<close>

theorem travelCell_zero_opening_not_applicable:
  "travelCell [(''hasTravelled'', JBool True), (''openingKm'', JNum (Fin 0)),
               (''closingKm'', JNum (Fin 50))] = NotApplicable"
  by (simp add: travelCell_def get_def)

section \<open>The dashboard total is the sum of the amounts\<close>





text \<open>
  Every addition rounds its result to a double, so the total belongs to the sequence in
  which the query returns the documents: the amounts 10.1, 20.2 and 30.3 add up to
  60.599999999999994 in this order and to 60.6 in the reverse order.
\<close>

lemma sumAmounts_rounds_every_addition:
  "sumAmounts fractionalEarnings = Amount (Fin (2132172948583219 / 35184372088832))
   \<and> sumAmounts (rev fractionalEarnings) = Amount (Fin (8528691794332877 / 140737488355328))
   \<and> toDouble (606 / 10) = Fin (8528691794332877 / 140737488355328)"
  by (simp add: sumAmounts_def fractionalEarnings_def get_def orZero_def double_defs)



section \<open>Earnings: no line item, or one document per line item\<close>

lemma addAll_accepted:
  assumes "\<forall>d. \<not> writeDenied E c d"
  shows "\<exists>new. addAll E w c ds = ([], w\<lparr>store := store w @ new,
                                         idCounter := idCounter w + length ds\<rparr>)
               \<and> map docData new = ds \<and> (\<forall>x\<in>set new. collName x = c)"
proof (induction ds arbitrary: w)
  case Nil
  show ?case by simp
next
  case (Cons d ds)
  let ?w1 = "w\<lparr>store := store w @ [\<lparr>collName = c, docId = ''doc'' @ showNat (idCounter w), docData = d\<rparr>],
                idCounter := idCounter w + 1\<rparr>"
  have a: "addDoc E w c d = Inr (''doc'' @ showNat (idCounter w), ?w1)"
    using assms by (simp add: addDoc_def Let_def)
  from Cons.IH [of ?w1] obtain new where
    n: "addAll E ?w1 c ds = ([], ?w1\<lparr>store := store ?w1 @ new,
                                       idCounter := idCounter ?w1 + length ds\<rparr>)"
    and m: "map docData new = ds" and c: "\<forall>x\<in>set new. collName x = c"
    by blast
  let ?new = "\<lparr>collName = c, docId = ''doc'' @ showNat (idCounter w), docData = d\<rparr> # new"
  have r: "addAll E w c (d # ds) = ([], w\<lparr>store := store w @ ?new,
                                         idCounter := idCounter w + length (d # ds)\<rparr>)"
    using n by (simp add: a del: showNat.simps)
  show ?case
  proof (intro exI conjI)
    show "addAll E w c (d # ds) = ([], w\<lparr>store := store w @ ?new,
                                         idCounter := idCounter w + length (d # ds)\<rparr>)"
      by (rule r)
    show "map docData ?new = d # ds" using m by simp
    show "\<forall>x\<in>set ?new. collName x = c" using c by simp
  qed
qed

lemma earningsSchema_valid:
  assumes "safeParse L earningsSchema (JObj kvs) = Inr out"
  shows "\<exists>items ys eid en.
           get kvs ''earnings'' = JArr items \<and> length ys = length items
           \<and> get kvs ''employeeId'' = JStr eid \<and> get kvs ''employeeName'' = JStr en
           \<and> out = JObj [(''earnings'', JArr ys), (''employeeId'', JStr eid),
                         (''employeeName'', JStr en)]"
proof -
  let ?a = "parse L (ZArray earningItemSchema (Some (1, ''Please add at least one earning.'')))
              [Key ''earnings''] (get kvs ''earnings'')"
  let ?b = "parse L (ZString []) [Key ''employeeId''] (get kvs ''employeeId'')"
  let ?c = "parse L (ZString []) [Key ''employeeName''] (get kvs ''employeeName'')"
  have fr: "fieldResults L [(''earnings'', ZArray earningItemSchema (Some (1, ''Please add at least one earning.''))),
      (''employeeId'', ZString []),
      (''employeeName'', ZString [])] kvs = [(''earnings'', ?a), (''employeeId'', ?b), (''employeeName'', ?c)]"
    by (simp add: fieldResults_def del: parse.simps)
  have sp: "safeParse L earningsSchema (JObj kvs) =
     (if fst ?a = Valid \<and> fst ?b = Valid \<and> fst ?c = Valid
      then Inr (JObj (map (\<lambda>(k, r). (k, snd (snd r)))
                   (filter (\<lambda>(k, r). snd (snd r) \<noteq> JUndefined \<or> has_key kvs k)
                      [(''earnings'', ?a), (''employeeId'', ?b), (''employeeName'', ?c)])))
      else Inl (concat (map (fst \<circ> snd \<circ> snd) [(''earnings'', ?a), (''employeeId'', ?b), (''employeeName'', ?c)])))"
    unfolding earningsSchema_def safeParse_object fr by (simp del: parse.simps)
  have va: "fst ?a = Valid" and vb: "fst ?b = Valid" and vc: "fst ?c = Valid"
    using assms unfolding sp by (auto split: if_splits)
  from parse_ZArray_Valid [OF va] obtain items ys where
    a: "get kvs ''earnings'' = JArr items" "snd (snd ?a) = JArr ys" "length ys = length items"
    by blast
  from parse_ZString_Valid [OF vb] obtain eid where
    b: "get kvs ''employeeId'' = JStr eid" "?b = (Valid, [], JStr eid)" by blast
  from parse_ZString_Valid [OF vc] obtain en where
    c: "get kvs ''employeeName'' = JStr en" "?c = (Valid, [], JStr en)" by blast
  have "out = JObj [(''earnings'', JArr ys), (''employeeId'', JStr eid), (''employeeName'', JStr en)]"
    using assms unfolding sp using va vb vc a(2) b(2) c(2) by (simp del: parse.simps)
  then show ?thesis using a b c by blast
qed


text \<open>
  Claim C3. With an empty sequence of line items \<open>submitEarnings\<close> returns a validation
  failure that carries the minimum-count message under the field \<open>earnings\<close>, and
  writes nothing. With a non-empty sequence that passes validation, and a store that
  accepts the writes, it returns success and the store gains exactly one document per
  line item, each in the collection \<open>earnings\<close> and each carrying the employeeId and
  the employeeName of the submission.
\<close>

theorem submitEarnings_empty_or_one_document_per_item:
  "(get kvs ''earnings'' = JArr [] \<longrightarrow>
      (\<exists>errs ms. submitEarnings E w (JObj kvs) =
           (\<lparr>success = False, message = ''Invalid data.'', errors = Some errs, extras = []\<rparr>, w)
         \<and> map_of errs ''earnings'' = Some ms
         \<and> ''Please add at least one earning.'' \<in> set ms))
   \<and> (get kvs ''earnings'' = JArr items \<and> items \<noteq> []
      \<and> safeParse (lib E) earningsSchema (JObj kvs) = Inr out
      \<and> (\<forall>d. \<not> writeDenied E ''earnings'' d) \<longrightarrow>
      (\<exists>w' new. submitEarnings E w (JObj kvs)
                    = (reply True ''Earnings submitted successfully.'', w')
         \<and> store w' = store w @ new
         \<and> length new = length items
         \<and> (\<forall>d\<in>set new. collName d = ''earnings''
                \<and> get (docData d) ''employeeId'' = get kvs ''employeeId''
                \<and> get (docData d) ''employeeName'' = get kvs ''employeeName'')))"
proof (intro conjI impI)
  assume e: "get kvs ''earnings'' = JArr []"
  let ?sch = "ZArray earningItemSchema (Some (1, ''Please add at least one earning.''))"
  let ?i = "\<lparr>path = [Key ''earnings''], msg = ''Please add at least one earning.''\<rparr>"
  have pa: "parse (lib E) ?sch [Key ''earnings''] (get kvs ''earnings'') = (Dirty, [?i], JArr [])"
    unfolding e by simp
  have s2: "(''earnings'', ?sch) \<in> set [(''earnings'', ?sch), (''employeeId'', ZString []),
                                         (''employeeName'', ZString [])]"
    by simp
  have "fst (parse (lib E) ?sch [Key ''earnings''] (get kvs ''earnings'')) \<noteq> Valid"
    unfolding pa by simp
  from safeParse_object_field_invalid [OF s2 this]
  obtain iss where sp: "safeParse (lib E) earningsSchema (JObj kvs) = Inl iss"
    and sub: "set (fst (snd (parse (lib E) ?sch [Key ''earnings''] (get kvs ''earnings''))))
                \<subseteq> set iss"
    unfolding earningsSchema_def by blast
  have mem: "?i \<in> set iss" using sub unfolding pa by simp
  have "pathHead ?i = Some ''earnings''" by (simp add: pathHead_def)
  from fieldErrors_has [OF mem this]
  show "\<exists>errs ms. submitEarnings E w (JObj kvs) =
           (\<lparr>success = False, message = ''Invalid data.'', errors = Some errs, extras = []\<rparr>, w)
         \<and> map_of errs ''earnings'' = Some ms
         \<and> ''Please add at least one earning.'' \<in> set ms"
    unfolding submitEarnings_def sp invalid_def by simp
next
  assume h: "get kvs ''earnings'' = JArr items \<and> items \<noteq> []
      \<and> safeParse (lib E) earningsSchema (JObj kvs) = Inr out
      \<and> (\<forall>d. \<not> writeDenied E ''earnings'' d)"
  then have sp: "safeParse (lib E) earningsSchema (JObj kvs) = Inr out"
    and nd: "\<forall>d. \<not> writeDenied E ''earnings'' d" and it: "get kvs ''earnings'' = JArr items"
    by simp_all
  from earningsSchema_valid [OF sp] it obtain ys eid en where
    len: "length ys = length items"
    and eid: "get kvs ''employeeId'' = JStr eid" and en: "get kvs ''employeeName'' = JStr en"
    and out: "out = JObj [(''earnings'', JArr ys), (''employeeId'', JStr eid),
                          (''employeeName'', JStr en)]"
    by auto
  let ?ds = "map (earningDoc w (JStr eid) (JStr en)) ys"
  from addAll_accepted [OF nd, of w ?ds] obtain new where
    aa: "addAll E w ''earnings'' ?ds
           = ([], w\<lparr>store := store w @ new, idCounter := idCounter w + length ?ds\<rparr>)"
    and dd: "map docData new = ?ds" and cc: "\<forall>x\<in>set new. collName x = ''earnings''"
    by blast
  let ?w' = "w\<lparr>store := store w @ new, idCounter := idCounter w + length ?ds\<rparr>"
  have run: "submitEarnings E w (JObj kvs) = (reply True ''Earnings submitted successfully.'', ?w')"
    unfolding submitEarnings_def sp out using aa by (simp add: get_def)
  have ln: "length new = length items"
    using dd len by (metis length_map)
  have each: "\<forall>d\<in>set new. collName d = ''earnings''
                \<and> get (docData d) ''employeeId'' = get kvs ''employeeId''
                \<and> get (docData d) ''employeeName'' = get kvs ''employeeName''"
  proof
    fix d assume d: "d \<in> set new"
    then have "docData d \<in> set ?ds" using dd by (metis image_eqI set_map)
    then obtain y where "docData d = earningDoc w (JStr eid) (JStr en) y" by auto
    then show "collName d = ''earnings''
                \<and> get (docData d) ''employeeId'' = get kvs ''employeeId''
                \<and> get (docData d) ''employeeName'' = get kvs ''employeeName''"
      using cc d eid en by (simp add: earningDoc_def get_update)
  qed
  show "\<exists>w' new. submitEarnings E w (JObj kvs)
                    = (reply True ''Earnings submitted successfully.'', w')
         \<and> store w' = store w @ new
         \<and> length new = length items
         \<and> (\<forall>d\<in>set new. collName d = ''earnings''
                \<and> get (docData d) ''employeeId'' = get kvs ''employeeId''
                \<and> get (docData d) ''employeeName'' = get kvs ''employeeName'')"
  proof (intro exI conjI)
    show "submitEarnings E w (JObj kvs) = (reply True ''Earnings submitted successfully.'', ?w')"
      by (rule run)
    show "store ?w' = store w @ new" by simp
    show "length new = length items" by (rule ln)
    show "\<forall>d\<in>set new. collName d = ''earnings''
                \<and> get (docData d) ''employeeId'' = get kvs ''employeeId''
                \<and> get (docData d) ''employeeName'' = get kvs ''employeeName''"
      by (rule each)
  qed
qed


theorem submitEarnings_empty_or_one_document_per_item_witness:
  "get noEarnings ''earnings'' = JArr []
   \<and> (\<exists>errs ms. submitEarnings exampleEnv emptyWorld (JObj noEarnings) =
           (\<lparr>success = False, message = ''Invalid data.'', errors = Some errs, extras = []\<rparr>,
            emptyWorld)
         \<and> map_of errs ''earnings'' = Some ms
         \<and> ''Please add at least one earning.'' \<in> set ms)
   \<and> get twoEarnings ''earnings'' = JArr twoItems \<and> twoItems \<noteq> []
   \<and> safeParse (lib exampleEnv) earningsSchema (JObj twoEarnings) = Inr twoParsed
   \<and> (\<forall>d. \<not> writeDenied exampleEnv ''earnings'' d)
   \<and> (\<exists>w' new. submitEarnings exampleEnv emptyWorld (JObj twoEarnings)
                    = (reply True ''Earnings submitted successfully.'', w')
         \<and> store w' = store emptyWorld @ new
         \<and> length new = 2
         \<and> list_all (\<lambda>d. collName d = ''earnings''
                \<and> get (docData d) ''employeeId'' = JStr ''emp1''
                \<and> get (docData d) ''employeeName'' = JStr ''Bob'') new)"
proof -
  have g0: "get noEarnings ''earnings'' = JArr []"
    by (simp add: noEarnings_def get_def)
  have g2: "get twoEarnings ''earnings'' = JArr twoItems"
    by (simp add: twoEarnings_def twoItems_def get_def)
  have ne: "twoItems \<noteq> []" by (simp add: twoItems_def)
  have sp: "safeParse (lib exampleEnv) earningsSchema (JObj twoEarnings) = Inr twoParsed"
    by (simp add: eval_defs number_defs earningsSchema_def earningItemSchema_def
          twoEarnings_def twoParsed_def enumerate_eq_zip)
  have nd: "\<forall>d. \<not> writeDenied exampleEnv ''earnings'' d" by (simp add: exampleEnv_def)
  have ge: "get twoEarnings ''employeeId'' = JStr ''emp1''"
    "get twoEarnings ''employeeName'' = JStr ''Bob''" "length twoItems = 2"
    by (simp_all add: twoEarnings_def twoItems_def get_def)
  note t0 = submitEarnings_empty_or_one_document_per_item [of noEarnings exampleEnv emptyWorld]
  note t2 = submitEarnings_empty_or_one_document_per_item
              [of twoEarnings exampleEnv emptyWorld twoItems twoParsed]
  have a: "\<exists>errs ms. submitEarnings exampleEnv emptyWorld (JObj noEarnings) =
           (\<lparr>success = False, message = ''Invalid data.'', errors = Some errs, extras = []\<rparr>,
            emptyWorld)
         \<and> map_of errs ''earnings'' = Some ms
         \<and> ''Please add at least one earning.'' \<in> set ms"
    using t0 g0 by blast
  have b: "\<exists>w' new. submitEarnings exampleEnv emptyWorld (JObj twoEarnings)
                    = (reply True ''Earnings submitted successfully.'', w')
         \<and> store w' = store emptyWorld @ new
         \<and> length new = 2
         \<and> list_all (\<lambda>d. collName d = ''earnings''
                \<and> get (docData d) ''employeeId'' = JStr ''emp1''
                \<and> get (docData d) ''employeeName'' = JStr ''Bob'') new"
    using t2 g2 ne sp nd unfolding ge list_all_iff by blast
  show ?thesis using g0 a g2 ne sp nd b by blast
qed

section \<open>Newsletter subscription is idempotent\<close>

lemma newsletterSchema_valid:
  "isEmail L e \<Longrightarrow>
   safeParse L newsletterSchema (JObj [(''email'', JStr e)]) = Inr (JObj [(''email'', JStr e)])"
  by (simp add: newsletterSchema_def safeParse_def get_def has_key_def checked_def
        checkIssues_def List.map_filter_def mergeStatus_def)

lemma subscribe_existing:
  assumes "formGet fd ''email'' = JStr e" and "isEmail (lib E) e"
    and "\<not> readDenied E ''newsletterSubscribers''"
    and "subscribersWith w e \<noteq> []"
  shows "subscribeToNewsletter E w fd = (reply True ''You are already subscribed!'', w)"
  using assms(3,4)
  by (simp add: subscribeToNewsletter_def assms(1) newsletterSchema_valid [OF assms(2)]
        getDocsWhere_def subscribersWith_def get_def Let_def)

lemma subscribe_new:
  assumes "formGet fd ''email'' = JStr e" and "isEmail (lib E) e"
    and "\<not> readDenied E ''newsletterSubscribers''"
    and "\<forall>d. \<not> writeDenied E ''newsletterSubscribers'' d"
    and "subscribersWith w e = []"
  shows "\<exists>w1. subscribeToNewsletter E w fd = (reply True ''Thank you for subscribing!'', w1)
              \<and> length (subscribersWith w1 e) = 1"
  using assms(3,4,5)
  by (simp add: subscribeToNewsletter_def assms(1) newsletterSchema_valid [OF assms(2)]
        getDocsWhere_def subscribersWith_def get_def has_key_def Let_def addDoc_def
        revalidatePath_def del: showNat.simps)

text \<open>
  Claim C5. For a form whose email passes validation, with a store that answers the
  lookup and accepts the write, subscribing twice in a row returns success both times,
  the second call leaves the world as the first one left it, and the number of
  subscriber documents with that email afterwards is 1 when there was none before (and
  unchanged when there was one already): the handler inserts only when its lookup finds
  nothing.
\<close>

theorem subscribeToNewsletter_idempotent:
  assumes "formGet fd ''email'' = JStr e" and "isEmail (lib E) e"
    and "\<not> readDenied E ''newsletterSubscribers''"
    and "\<forall>d. \<not> writeDenied E ''newsletterSubscribers'' d"
  shows "\<exists>r1 w1 r2. subscribeToNewsletter E w fd = (r1, w1)
           \<and> subscribeToNewsletter E w1 fd = (r2, w1)
           \<and> success r1 \<and> success r2
           \<and> length (subscribersWith w1 e) = max 1 (length (subscribersWith w e))"
proof (cases "subscribersWith w e = []")
  case True
  from subscribe_new [OF assms True] obtain w1 where
    a: "subscribeToNewsletter E w fd = (reply True ''Thank you for subscribing!'', w1)"
    and l: "length (subscribersWith w1 e) = 1" by blast
  from l have "subscribersWith w1 e \<noteq> []" by auto
  from subscribe_existing [OF assms(1,2,3) this]
  have b: "subscribeToNewsletter E w1 fd = (reply True ''You are already subscribed!'', w1)" .
  show ?thesis using a b l True by (simp add: reply_def)
next
  case False
  from subscribe_existing [OF assms(1,2,3) False]
  have b: "subscribeToNewsletter E w fd = (reply True ''You are already subscribed!'', w)" .
  have "max 1 (length (subscribersWith w e)) = length (subscribersWith w e)"
    using False by (cases "subscribersWith w e") simp_all
  then show ?thesis using b by (simp add: reply_def)
qed

theorem subscribeToNewsletter_idempotent_witness:
  "formGet aliceForm ''email'' = JStr ''alice@example.com''
   \<and> isEmail (lib exampleEnv) ''alice@example.com''
   \<and> \<not> readDenied exampleEnv ''newsletterSubscribers''
   \<and> (\<forall>d. \<not> writeDenied exampleEnv ''newsletterSubscribers'' d)
   \<and> subscribersWith emptyWorld ''alice@example.com'' = []
   \<and> (\<exists>r1 w1 r2. subscribeToNewsletter exampleEnv emptyWorld aliceForm = (r1, w1)
           \<and> subscribeToNewsletter exampleEnv w1 aliceForm = (r2, w1)
           \<and> success r1 \<and> success r2
           \<and> length (subscribersWith w1 ''alice@example.com'') = 1)"
proof -
  have h1: "formGet aliceForm ''email'' = JStr ''alice@example.com''"
    by (simp add: aliceForm_def formGet_def)
  have h2: "isEmail (lib exampleEnv) ''alice@example.com''"
    by (simp add: exampleEnv_def exampleLib_def)
  have h3: "\<not> readDenied exampleEnv ''newsletterSubscribers''"
    by (simp add: exampleEnv_def)
  have h4: "\<forall>d. \<not> writeDenied exampleEnv ''newsletterSubscribers'' d"
    by (simp add: exampleEnv_def)
  have h5: "subscribersWith emptyWorld ''alice@example.com'' = []"
    by (simp add: subscribersWith_def emptyWorld_def)
  show ?thesis
    using h1 h2 h3 h4 h5 subscribeToNewsletter_idempotent [OF h1 h2 h3 h4, of emptyWorld]
    by simp
qed

section \<open>Membership verification is idempotent\<close>

lemma verifyMembershipSchema_valid:
  assumes "get kvs ''membershipId'' = JStr mid" and "get kvs ''email'' = JStr e"
    and "get kvs ''password'' = JStr pw" and "isEmail L e"
  shows "safeParse L verifyMembershipSchema (JObj kvs)
           = Inr (JObj [(''membershipId'', JStr mid), (''email'', JStr e),
                        (''password'', JStr pw)])"
  using assms
  by (simp add: verifyMembershipSchema_def safeParse_def checked_def
        checkIssues_def List.map_filter_def mergeStatus_def)

lemma filter_map_same:
  "(\<And>x. P (f x) = P x) \<Longrightarrow> filter P (map f xs) = map f (filter P xs)"
  by (induction xs) simp_all

lemma setVerified_keeps:
  "(collName (setVerified mid x) = ''memberships'' \<and> docId (setVerified mid x) = mid)
     = (collName x = ''memberships'' \<and> docId x = mid)"
  by (simp add: setVerified_def)

lemma setVerified_isVerified:
  "collName x = ''memberships'' \<and> docId x = mid \<Longrightarrow> isVerified (setVerified mid x)"
  by (simp add: setVerified_def isVerified_def mergeFields_def get_update)

lemma updateDoc_verified:
  assumes "\<forall>d. \<not> writeDenied E ''memberships'' d" and "membershipDocs w mid \<noteq> []"
  shows "\<exists>w'. updateDoc E w ''memberships'' mid [(''status'', JStr ''verified'')] = Inr w'
              \<and> accounts w' = accounts w
              \<and> membershipDocs w' mid \<noteq> []
              \<and> list_all isVerified (membershipDocs w' mid)"
proof -
  let ?w' = "w\<lparr>store := map (setVerified mid) (store w)\<rparr>"
  have ex: "list_ex (\<lambda>x. collName x = ''memberships'' \<and> docId x = mid) (store w)"
    using assms(2) by (simp add: membershipDocs_def filter_empty_conv list_ex_iff)
  have u: "updateDoc E w ''memberships'' mid [(''status'', JStr ''verified'')] = Inr ?w'"
    using assms(1) ex by (simp add: updateDoc_def setVerified_def [abs_def])
  have m: "membershipDocs ?w' mid = map (setVerified mid) (membershipDocs w mid)"
    unfolding membershipDocs_def
    by (simp add: filter_map_same
          [where f = "setVerified mid"
             and P = "\<lambda>x. collName x = ''memberships'' \<and> docId x = mid"]
          setVerified_keeps)
  have v: "list_all isVerified (map (setVerified mid) (membershipDocs w mid))"
    by (simp add: list_all_iff membershipDocs_def setVerified_isVerified)
  show ?thesis
  proof (intro exI conjI)
    show "updateDoc E w ''memberships'' mid [(''status'', JStr ''verified'')] = Inr ?w'"
      by (rule u)
    show "accounts ?w' = accounts w" by simp
    show "membershipDocs ?w' mid \<noteq> []" using assms(2) by (simp add: m)
    show "list_all isVerified (membershipDocs ?w' mid)" using v by (simp add: m)
  qed
qed

lemma membershipDocs_revalidatePath [simp]:
  "membershipDocs (revalidatePath w p) mid = membershipDocs w mid"
  by (simp add: membershipDocs_def revalidatePath_def)

lemma accounts_revalidatePath [simp]: "accounts (revalidatePath w p) = accounts w"
  by (simp add: revalidatePath_def)

lemma verifyMembership_account_exists:
  assumes "get kvs ''membershipId'' = JStr mid" and "get kvs ''email'' = JStr e"
    and "get kvs ''password'' = JStr pw" and "isEmail (lib E) e"
    and "authDenied E e pw = None"
    and "\<forall>d. \<not> writeDenied E ''memberships'' d"
    and "membershipDocs w mid \<noteq> []"
    and "accountsOf w e \<noteq> []"
  shows "\<exists>w1. verifyMembership E w (JObj kvs)
                 = (Inr (reply True ''User already exists. Membership marked as verified.''), w1)
              \<and> accounts w1 = accounts w
              \<and> membershipDocs w1 mid \<noteq> []
              \<and> list_all isVerified (membershipDocs w1 mid)"
proof -
  have ex: "list_ex (\<lambda>a. acctEmail a = e) (accounts w)"
    using assms(8) by (simp add: accountsOf_def filter_empty_conv list_ex_iff)
  have cu: "createUserWithEmailAndPassword E w e pw
              = Inl (JsError ''auth/email-already-in-use'' ''The email address is already in use.'')"
    using assms(5) ex by (simp add: createUserWithEmailAndPassword_def)
  from updateDoc_verified [OF assms(6,7)] obtain w' where
    u: "updateDoc E w ''memberships'' mid [(''status'', JStr ''verified'')] = Inr w'"
    and p: "accounts w' = accounts w" "membershipDocs w' mid \<noteq> []"
           "list_all isVerified (membershipDocs w' mid)"
    by blast
  have "verifyMembership E w (JObj kvs)
          = (Inr (reply True ''User already exists. Membership marked as verified.''),
             revalidatePath w' ''/admin/memberships'')"
    by (simp add: verifyMembership_def verifyMembershipSchema_valid [OF assms(1,2,3,4)]
          get_def cu u)
  then show ?thesis using p by simp
qed

lemma verifyMembership_account_new:
  assumes "get kvs ''membershipId'' = JStr mid" and "get kvs ''email'' = JStr e"
    and "get kvs ''password'' = JStr pw" and "isEmail (lib E) e"
    and "authDenied E e pw = None"
    and "\<forall>d. \<not> writeDenied E ''memberships'' d"
    and "membershipDocs w mid \<noteq> []"
    and "accountsOf w e = []"
  shows "\<exists>w1. verifyMembership E w (JObj kvs)
                 = (Inr (reply True ''Membership verified and user created.''), w1)
              \<and> length (accountsOf w1 e) = 1
              \<and> membershipDocs w1 mid \<noteq> []
              \<and> list_all isVerified (membershipDocs w1 mid)"
proof -
  let ?u = "''uid'' @ showNat (idCounter w)"
  let ?wa = "w\<lparr>accounts := accounts w @ [\<lparr>acctUid = ?u, acctEmail = e, acctPassword = pw\<rparr>],
               idCounter := idCounter w + 1\<rparr>"
  have nex: "\<not> list_ex (\<lambda>a. acctEmail a = e) (accounts w)"
    using assms(8) by (simp add: accountsOf_def filter_empty_conv list_ex_iff)
  have cu: "createUserWithEmailAndPassword E w e pw = Inr (?u, ?wa)"
    using assms(5) nex by (simp add: createUserWithEmailAndPassword_def Let_def)
  have md: "membershipDocs ?wa mid = membershipDocs w mid"
    by (simp add: membershipDocs_def)
  have "membershipDocs ?wa mid \<noteq> []" unfolding md by (rule assms(7))
  from updateDoc_verified [OF assms(6) this] obtain w' where
    u: "updateDoc E ?wa ''memberships'' mid [(''status'', JStr ''verified'')] = Inr w'"
    and p: "accounts w' = accounts ?wa" "membershipDocs w' mid \<noteq> []"
           "list_all isVerified (membershipDocs w' mid)"
    by blast
  have run: "verifyMembership E w (JObj kvs)
          = (Inr (reply True ''Membership verified and user created.''),
             revalidatePath w' ''/admin/memberships'')"
    using u
    by (simp add: verifyMembership_def verifyMembershipSchema_valid [OF assms(1,2,3,4)]
          get_def cu del: showNat.simps)
  have "length (accountsOf (revalidatePath w' ''/admin/memberships'') e) = 1"
    using assms(8) by (simp add: accountsOf_def p(1))
  then show ?thesis using run p by simp
qed

text \<open>
  Claim C2. For a membership document that exists, with credentials the identity
  service has no other objection to and a store that accepts the update, calling
  \<open>verifyMembership\<close> twice with the same membershipId, email and password returns
  success both times, the membership is marked verified after each call, and the second
  call leaves the accounts of the identity service as the first one left them: the first
  call creates the account only when the email had none.
\<close>

theorem verifyMembership_idempotent:
  assumes "get kvs ''membershipId'' = JStr mid" and "get kvs ''email'' = JStr e"
    and "get kvs ''password'' = JStr pw" and "isEmail (lib E) e"
    and "authDenied E e pw = None"
    and "\<forall>d. \<not> writeDenied E ''memberships'' d"
    and "membershipDocs w mid \<noteq> []"
  shows "\<exists>r1 w1 r2 w2.
           verifyMembership E w (JObj kvs) = (Inr r1, w1)
         \<and> verifyMembership E w1 (JObj kvs) = (Inr r2, w2)
         \<and> success r1 \<and> success r2
         \<and> membershipDocs w1 mid \<noteq> [] \<and> list_all isVerified (membershipDocs w1 mid)
         \<and> membershipDocs w2 mid \<noteq> [] \<and> list_all isVerified (membershipDocs w2 mid)
         \<and> accounts w2 = accounts w1
         \<and> length (accountsOf w1 e) = max 1 (length (accountsOf w e))"
proof -
  obtain r1 w1 where
    a: "verifyMembership E w (JObj kvs) = (Inr r1, w1)" "success r1"
       "membershipDocs w1 mid \<noteq> []" "list_all isVerified (membershipDocs w1 mid)"
       "length (accountsOf w1 e) = max 1 (length (accountsOf w e))"
  proof (cases "accountsOf w e = []")
    case True
    from verifyMembership_account_new [OF assms True] obtain w1 where
      "verifyMembership E w (JObj kvs)
         = (Inr (reply True ''Membership verified and user created.''), w1)"
      "length (accountsOf w1 e) = 1" "membershipDocs w1 mid \<noteq> []"
      "list_all isVerified (membershipDocs w1 mid)" by blast
    then show ?thesis using that True by (simp add: reply_def)
  next
    case False
    from verifyMembership_account_exists [OF assms False] obtain w1 where
      r: "verifyMembership E w (JObj kvs)
         = (Inr (reply True ''User already exists. Membership marked as verified.''), w1)"
      "accounts w1 = accounts w" "membershipDocs w1 mid \<noteq> []"
      "list_all isVerified (membershipDocs w1 mid)" by blast
    have "length (accountsOf w1 e) = max 1 (length (accountsOf w e))"
      using False r(2) by (cases "accountsOf w e") (simp_all add: accountsOf_def)
    then show ?thesis using that r by (simp add: reply_def)
  qed
  have ne: "accountsOf w1 e \<noteq> []" using a(5) by auto
  from verifyMembership_account_exists [OF assms(1-6) a(3) ne] obtain w2 where
    b: "verifyMembership E w1 (JObj kvs)
         = (Inr (reply True ''User already exists. Membership marked as verified.''), w2)"
      "accounts w2 = accounts w1" "membershipDocs w2 mid \<noteq> []"
      "list_all isVerified (membershipDocs w2 mid)" by blast
  show ?thesis
  proof (intro exI conjI)
    show "verifyMembership E w (JObj kvs) = (Inr r1, w1)" by (rule a(1))
    show "verifyMembership E w1 (JObj kvs)
            = (Inr (reply True ''User already exists. Membership marked as verified.''), w2)"
      by (rule b(1))
    show "success r1" by (rule a(2))
    show "success (reply True ''User already exists. Membership marked as verified.'')"
      by (simp add: reply_def)
  qed (use a b in simp_all)
qed

theorem verifyMembership_idempotent_witness:
  "get verifyCarol ''membershipId'' = JStr ''m1''
   \<and> get verifyCarol ''email'' = JStr ''carol@example.com''
   \<and> get verifyCarol ''password'' = JStr ''9876543210''
   \<and> isEmail (lib exampleEnv) ''carol@example.com''
   \<and> authDenied exampleEnv ''carol@example.com'' ''9876543210'' = None
   \<and> (\<forall>d. \<not> writeDenied exampleEnv ''memberships'' d)
   \<and> membershipDocs pendingWorld ''m1'' \<noteq> []
   \<and> accountsOf pendingWorld ''carol@example.com'' = []
   \<and> (\<exists>r1 w1 r2 w2.
           verifyMembership exampleEnv pendingWorld (JObj verifyCarol) = (Inr r1, w1)
         \<and> verifyMembership exampleEnv w1 (JObj verifyCarol) = (Inr r2, w2)
         \<and> success r1 \<and> success r2
         \<and> membershipDocs w1 ''m1'' \<noteq> [] \<and> list_all isVerified (membershipDocs w1 ''m1'')
         \<and> membershipDocs w2 ''m1'' \<noteq> [] \<and> list_all isVerified (membershipDocs w2 ''m1'')
         \<and> accounts w2 = accounts w1
         \<and> length (accountsOf w1 ''carol@example.com'') = 1)"
proof -
  have h1: "get verifyCarol ''membershipId'' = JStr ''m1''"
    and h2: "get verifyCarol ''email'' = JStr ''carol@example.com''"
    and h3: "get verifyCarol ''password'' = JStr ''9876543210''"
    by (simp_all add: verifyCarol_def get_def)
  have h4: "isEmail (lib exampleEnv) ''carol@example.com''"
    by (simp add: exampleEnv_def exampleLib_def)
  have h5: "authDenied exampleEnv ''carol@example.com'' ''9876543210'' = None"
    by (simp add: exampleEnv_def)
  have h6: "\<forall>d. \<not> writeDenied exampleEnv ''memberships'' d"
    by (simp add: exampleEnv_def)
  have h7: "membershipDocs pendingWorld ''m1'' \<noteq> []"
    by (simp add: membershipDocs_def pendingWorld_def)
  have h8: "accountsOf pendingWorld ''carol@example.com'' = []"
    by (simp add: accountsOf_def pendingWorld_def emptyWorld_def)
  show ?thesis
    using h1 h2 h3 h4 h5 h6 h7 h8 verifyMembership_idempotent [OF h1 h2 h3 h4 h5 h6 h7]
    by simp
qed

section \<open>Job application: the resume is uploaded before the record is written\<close>

lemma applicationInput_annForm: "applicationInput annForm =
  [(''jobId'', JStr ''job42''),
      (''fullName'', JStr ''Ann Lee''),
      (''mobile'', JStr ''9876543210''),
      (''email'', JStr ''ann@example.com''),
      (''hasExperience'', JStr ''no''),
      (''readyToRelocate'', JStr ''yes''),
      (''confirmInfo'', JBool True),
      (''agreeTerms'', JBool True),
      (''resume'', JFile (File ''cv.pdf'' 10)),
      (''languages'', JArr []), (''yearsOfExperience'', JUndefined)]"
  by (simp add: applicationInput_def annForm_def fromEntries_def formGetAll_def get_def Let_def)

lemma applicationSchema_annForm:
  "safeParse (lib exampleEnv) applicationSchema (JObj (applicationInput annForm)) = Inr (JObj annParsed)"
  unfolding applicationInput_annForm
  by (simp add: eval_defs applicationSchema_def annParsed_def joinValues_def)

lemma safeParse_first_string:
  assumes "safeParse L (ZObject ((k, ZString cs) # rest)) (JObj kvs) = Inr out"
  shows "\<exists>s. get kvs k = JStr s \<and> get (spread out) k = JStr s"
proof -
  let ?r = "parse L (ZString cs) [Key k] (get kvs k)"
  have fr: "fieldResults L ((k, ZString cs) # rest) kvs = (k, ?r) # fieldResults L rest kvs"
    by (simp add: fieldResults_def del: parse.simps)
  have v: "fst ?r = Valid"
    using assms unfolding safeParse_object fr by (auto split: if_splits simp del: parse.simps)
  from parse_ZString_Valid [OF v] obtain s where
    s: "get kvs k = JStr s" "?r = (Valid, [], JStr s)" by blast
  have "get (spread out) k = JStr s"
    using assms unfolding safeParse_object fr s(2)
    by (auto split: if_splits simp: get_def simp del: parse.simps)
  then show ?thesis using s(1) by blast
qed

lemma applicationSchema_jobId:
  assumes "safeParse L applicationSchema (JObj kvs) = Inr out"
  shows "\<exists>j. get kvs ''jobId'' = JStr j \<and> get (spread out) ''jobId'' = JStr j"
  using assms unfolding applicationSchema_def by (rule safeParse_first_string)

text \<open>
  Claim C4. Take a job application that passes validation and whose \<open>resume\<close> entry
  is a file of positive size. The path of the upload is \<^verbatim>\<open>resumes/\<close>, the submitted
  job identifier, a slash, the submission time, a dash and the name of the file. When
  the upload is refused, or no retrieval URL is obtained, \<open>applyForJob\<close> returns
  failure and the document store is unchanged. When both succeed, the file is stored
  under that path and the record handed to the document write carries the retrieval URL
  under \<open>resumeUrl\<close>; the Application document, when the store accepts it, is exactly
  that record.
\<close>

theorem applyForJob_uploads_resume_before_write:
  assumes "safeParse (lib E) applicationSchema (JObj (applicationInput fd)) = Inr out"
    and "formGet fd ''resume'' = JFile f" and "0 < fsize f"
  shows "\<exists>j p failed.
           get (applicationInput fd) ''jobId'' = JStr j
         \<and> p = ''resumes/'' @ j @ ''/'' @ showNat (clock w) @ ''-'' @ fname f
         \<and> failed = reply False ''Failed to submit application. Please try again.''
         \<and> (uploadDenied E p f \<longrightarrow> applyForJob E w fd = (failed, w))
         \<and> (\<not> uploadDenied E p f \<and> urlOf E p = None \<longrightarrow>
               applyForJob E w fd = (failed, w\<lparr>blobs := AList.update p f (blobs w)\<rparr>))
         \<and> (\<forall>u. \<not> uploadDenied E p f \<and> urlOf E p = Some u \<longrightarrow>
               (\<exists>doc w1. doc = AList.update ''submittedAt'' (serverTimestamp w)
                                 (AList.update ''resumeUrl'' (JStr u) (spread out))
                  \<and> get doc ''resumeUrl'' = JStr u
                  \<and> w1 = w\<lparr>blobs := AList.update p f (blobs w)\<rparr>
                  \<and> applyForJob E w fd =
                      (if writeDenied E ''applications'' (JObj doc) then (failed, w1)
                       else (reply True
                               ''Application submitted successfully! We will get back to you soon.'',
                             w1\<lparr>store := store w @ [\<lparr>collName = ''applications'',
                                                     docId = ''doc'' @ showNat (idCounter w),
                                                     docData = doc\<rparr>],
                                idCounter := idCounter w + 1\<rparr>))))"
proof -
  from applicationSchema_jobId [OF assms(1)] obtain j where
    j: "get (applicationInput fd) ''jobId'' = JStr j" "get (spread out) ''jobId'' = JStr j"
    by blast
  let ?p = "''resumes/'' @ j @ ''/'' @ showNat (clock w) @ ''-'' @ fname f"
  let ?failed = "reply False ''Failed to submit application. Please try again.''"
  have rp: "resumePath (strOf (get (spread out) ''jobId'')) (clock w) (fname f) = ?p"
    by (simp add: resumePath_def j(2) del: showNat.simps)
  have c1: "uploadDenied E ?p f \<longrightarrow> applyForJob E w fd = (?failed, w)"
    using assms(3)
    by (simp add: applyForJob_def assms(1,2) resumeStep_def rp uploadBytes_def Let_def
          del: showNat.simps)
  have c2: "\<not> uploadDenied E ?p f \<and> urlOf E ?p = None \<longrightarrow>
               applyForJob E w fd = (?failed, w\<lparr>blobs := AList.update ?p f (blobs w)\<rparr>)"
    using assms(3)
    by (simp add: applyForJob_def assms(1,2) resumeStep_def rp uploadBytes_def
          getDownloadURL_def Let_def del: showNat.simps)
  have c3: "\<forall>u. \<not> uploadDenied E ?p f \<and> urlOf E ?p = Some u \<longrightarrow>
               (\<exists>doc w1. doc = AList.update ''submittedAt'' (serverTimestamp w)
                                 (AList.update ''resumeUrl'' (JStr u) (spread out))
                  \<and> get doc ''resumeUrl'' = JStr u
                  \<and> w1 = w\<lparr>blobs := AList.update ?p f (blobs w)\<rparr>
                  \<and> applyForJob E w fd =
                      (if writeDenied E ''applications'' (JObj doc) then (?failed, w1)
                       else (reply True
                               ''Application submitted successfully! We will get back to you soon.'',
                             w1\<lparr>store := store w @ [\<lparr>collName = ''applications'',
                                                     docId = ''doc'' @ showNat (idCounter w),
                                                     docData = doc\<rparr>],
                                idCounter := idCounter w + 1\<rparr>)))"
    using assms(3)
    by (simp add: applyForJob_def assms(1,2) resumeStep_def rp uploadBytes_def
          getDownloadURL_def addDoc_def serverTimestamp_def get_update Let_def
          del: showNat.simps)
  show ?thesis using j(1) c1 c2 c3 by blast
qed

lemma showNat_clock: "showNat 1700000000 = ''1700000000''"
  by (simp add: char_of_eq_iff)

lemma showNat_zero: "showNat 0 = ''0''"
  by (simp add: char_of_eq_iff)

theorem applyForJob_uploads_resume_before_write_witness:
  "safeParse (lib exampleEnv) applicationSchema (JObj (applicationInput annForm))
     = Inr (JObj annParsed)
   \<and> formGet annForm ''resume'' = JFile (File ''cv.pdf'' 10)
   \<and> 0 < fsize (File ''cv.pdf'' 10)
   \<and> get (applicationInput annForm) ''jobId'' = JStr ''job42''
   \<and> uploadDenied uploadRefusedEnv annPath (File ''cv.pdf'' 10)
   \<and> applyForJob uploadRefusedEnv emptyWorld annForm
       = (reply False ''Failed to submit application. Please try again.'', emptyWorld)
   \<and> \<not> uploadDenied noUrlEnv annPath (File ''cv.pdf'' 10)
   \<and> urlOf noUrlEnv annPath = None
   \<and> applyForJob noUrlEnv emptyWorld annForm
       = (reply False ''Failed to submit application. Please try again.'',
          emptyWorld\<lparr>blobs := [(annPath, File ''cv.pdf'' 10)]\<rparr>)
   \<and> \<not> uploadDenied exampleEnv annPath (File ''cv.pdf'' 10)
   \<and> urlOf exampleEnv annPath = Some (''https://files.example/'' @ annPath)
   \<and> \<not> writeDenied exampleEnv ''applications'' (JObj annDoc)
   \<and> applyForJob exampleEnv emptyWorld annForm
       = (reply True ''Application submitted successfully! We will get back to you soon.'',
          emptyWorld\<lparr>blobs := [(annPath, File ''cv.pdf'' 10)],
                     store := [\<lparr>collName = ''applications'', docId = ''doc0'',
                                docData = annDoc\<rparr>],
                     idCounter := 1\<rparr>)"
proof -
  have v: "safeParse (lib exampleEnv) applicationSchema (JObj (applicationInput annForm))
             = Inr (JObj annParsed)"
    by (rule applicationSchema_annForm)
  have l1: "lib uploadRefusedEnv = lib exampleEnv" and l2: "lib noUrlEnv = lib exampleEnv"
    by (simp_all add: uploadRefusedEnv_def noUrlEnv_def)
  have r: "formGet annForm ''resume'' = JFile (File ''cv.pdf'' 10)"
    by (simp add: formGet_def annForm_def)
  have s: "0 < fsize (File ''cv.pdf'' 10)" by simp
  have g: "get (applicationInput annForm) ''jobId'' = JStr ''job42''"
    by (simp add: applicationInput_annForm get_def)
  have p: "''resumes/'' @ ''job42'' @ ''/'' @ showNat (clock emptyWorld) @ ''-''
             @ fname (File ''cv.pdf'' 10) = annPath"
    by (simp add: emptyWorld_def annPath_def showNat_clock del: showNat.simps)
  have e1: "uploadDenied uploadRefusedEnv annPath (File ''cv.pdf'' 10)"
    by (simp add: uploadRefusedEnv_def)
  have e2: "\<not> uploadDenied noUrlEnv annPath (File ''cv.pdf'' 10)" "urlOf noUrlEnv annPath = None"
    by (simp_all add: noUrlEnv_def exampleEnv_def)
  have e3: "\<not> uploadDenied exampleEnv annPath (File ''cv.pdf'' 10)"
    "urlOf exampleEnv annPath = Some (''https://files.example/'' @ annPath)"
    "\<not> writeDenied exampleEnv ''applications'' (JObj annDoc)"
    by (simp_all add: exampleEnv_def)
  have d: "AList.update ''submittedAt'' (serverTimestamp emptyWorld)
             (AList.update ''resumeUrl'' (JStr (''https://files.example/'' @ annPath))
                (spread (JObj annParsed))) = annDoc"
    by (simp add: annDoc_def annParsed_def serverTimestamp_def emptyWorld_def)
  have a1: "applyForJob uploadRefusedEnv emptyWorld annForm
       = (reply False ''Failed to submit application. Please try again.'', emptyWorld)"
    using applyForJob_uploads_resume_before_write
            [OF v [folded l1] r s, of emptyWorld] g p e1
    by auto
  have a2: "applyForJob noUrlEnv emptyWorld annForm
       = (reply False ''Failed to submit application. Please try again.'',
          emptyWorld\<lparr>blobs := [(annPath, File ''cv.pdf'' 10)]\<rparr>)"
    using applyForJob_uploads_resume_before_write
            [OF v [folded l2] r s, of emptyWorld] g p e2
    by (auto simp: emptyWorld_def)
  have a3: "applyForJob exampleEnv emptyWorld annForm
       = (reply True ''Application submitted successfully! We will get back to you soon.'',
          emptyWorld\<lparr>blobs := [(annPath, File ''cv.pdf'' 10)],
                     store := [\<lparr>collName = ''applications'', docId = ''doc0'',
                                docData = annDoc\<rparr>],
                     idCounter := 1\<rparr>)"
    using applyForJob_uploads_resume_before_write [OF v r s, of emptyWorld] g p e3 d
    by (auto simp: emptyWorld_def showNat_zero simp del: showNat.simps)
  show ?thesis using v r s g e1 a1 e2 a2 e3 a3 by blast
qed

section \<open>String input of coerced number fields\<close>

lemma isDigit_not_space: "isDigit c \<Longrightarrow> \<not> isWhiteSpace c"
  by (auto simp: isDigit_def isWhiteSpace_def)

lemma isDigit_hexVal: "isDigit c \<Longrightarrow> hexVal c = Some (of_char c - 48)"
  by (simp add: isDigit_def hexVal_def Let_def)

lemma isDigit_inBase: "isDigit c \<Longrightarrow> inBase 16 c"
proof -
  assume d: "isDigit c"
  then have "(of_char c :: nat) - 48 < 16" unfolding isDigit_def by linarith
  then show ?thesis by (simp add: inBase_def isDigit_hexVal [OF d])
qed

lemma dropWhile_keeps: "x \<in> set xs \<Longrightarrow> \<not> P x \<Longrightarrow> x \<in> set (dropWhile P xs)"
  by (induction xs) auto

lemma trimWS_keeps: "c \<in> set s \<Longrightarrow> \<not> isWhiteSpace c \<Longrightarrow> c \<in> set (trimWS s)"
  by (simp add: trimWS_def dropWhile_keeps)

lemma dropWhile_all: "\<forall>x\<in>set xs. P x \<Longrightarrow> dropWhile P xs = []"
  by (induction xs) auto

lemma trimWS_blank: "list_all isWhiteSpace s \<Longrightarrow> trimWS s = []"
  by (simp add: trimWS_def list_all_iff dropWhile_all)

lemma trimWS_id:
  assumes "list_all (\<lambda>c. \<not> isWhiteSpace c) s"
  shows "trimWS s = s"
proof -
  have a: "dropWhile isWhiteSpace s = s"
    using assms by (cases s) simp_all
  have "list_all (\<lambda>c. \<not> isWhiteSpace c) (rev s)"
    using assms by (simp add: list_all_iff)
  then have b: "dropWhile isWhiteSpace (rev s) = rev s"
    by (cases "rev s") simp_all
  show ?thesis by (simp add: trimWS_def a b)
qed

lemma StringToNumber_blank: "list_all isWhiteSpace s \<Longrightarrow> StringToNumber s = Fin 0"
  by (simp add: StringToNumber_def trimWS_blank)

lemma digit_not_letter:
  assumes "isDigit x"
  shows "x \<noteq> CHR ''x''" "x \<noteq> CHR ''X''" "x \<noteq> CHR ''o''" "x \<noteq> CHR ''O''"
    "x \<noteq> CHR ''b''" "x \<noteq> CHR ''B''" "x \<noteq> CHR ''+''" "x \<noteq> CHR ''-''" "x \<noteq> CHR ''I''"
  using assms by (auto simp: isDigit_def)

lemma nonDecimal_digits: "list_all isDigit s \<Longrightarrow> nonDecimal s = None"
proof (cases s)
  case Nil
  then show ?thesis by (simp add: nonDecimal_def)
next
  case (Cons z t)
  assume a: "list_all isDigit s"
  show ?thesis
  proof (cases t)
    case Nil
    then show ?thesis using Cons by (simp add: nonDecimal_def)
  next
    case (Cons x ds)
    then have "isDigit x" using a \<open>s = z # t\<close> by simp
    from digit_not_letter [OF this] show ?thesis
      using Cons \<open>s = z # t\<close> by (simp add: nonDecimal_def)
  qed
qed

lemma foldl_digits_less:
  "list_all isDigit s \<Longrightarrow>
   foldl (\<lambda>a c. 10 * a + the (hexVal c)) a s < (a + 1) * 10 ^ length s"
proof (induction s arbitrary: a)
  case Nil
  then show ?case by simp
next
  case (Cons c s)
  have c: "isDigit c" and s: "list_all isDigit s" using Cons.prems by simp_all
  have "(of_char c :: nat) \<le> 57" using c by (simp add: isDigit_def)
  then have d: "the (hexVal c) \<le> 9" by (simp add: isDigit_hexVal [OF c])
  have "foldl (\<lambda>a c. 10 * a + the (hexVal c)) (10 * a + the (hexVal c)) s
          < (10 * a + the (hexVal c) + 1) * 10 ^ length s"
    by (rule Cons.IH [OF s])
  also have "\<dots> \<le> (10 * a + 10) * 10 ^ length s"
    using d by (intro mult_right_mono) simp_all
  also have "\<dots> = (a + 1) * 10 ^ length (c # s)" by (simp add: algebra_simps)
  finally show ?case by simp
qed

lemma baseVal_digits_less: "list_all isDigit s \<Longrightarrow> baseVal 10 s < 10 ^ length s"
  using foldl_digits_less [of s 0] by (simp add: baseVal_def)

lemma StringToNumber_digits:
  assumes "s \<noteq> []" and "list_all isDigit s"
  shows "StringToNumber s = toDouble (of_nat (baseVal 10 s))"
proof -
  obtain c r where s: "s = c # r" using assms(1) by (cases s) auto
  have d: "isDigit c" using assms(2) s by simp
  have t: "trimWS s = s"
    using assms(2) by (intro trimWS_id) (auto simp: list_all_iff isDigit_not_space)
  have n: "nonDecimal s = None" using assms(2) by (rule nonDecimal_digits)
  have inf: "s \<noteq> ''Infinity''" using digit_not_letter(9) [OF d] s by auto
  have tw: "takeWhile isDigit s = s" "dropWhile isDigit s = []"
    using assms(2) by (simp_all add: list_all_iff dropWhile_all)
  have u: "unsignedDecimal s = toDouble (of_nat (baseVal 10 s))"
    using inf assms(1)
    by (simp add: unsignedDecimal_def tw exponentPart_def scale10_def baseVal_def)
  show ?thesis
    unfolding StringToNumber_def t using n digit_not_letter(7,8) [OF d] u by (simp add: s)
qed

text \<open>A string of at most 15 decimal digits denotes an integer below \<open>2 ^ 53\<close>.\<close>

lemma StringToNumber_digits_exact:
  assumes "s \<noteq> []" and "list_all isDigit s" and "length s \<le> 15"
  shows "StringToNumber s = Fin (of_nat (baseVal 10 s))"
proof -
  have "baseVal 10 s < 10 ^ length s" using assms(2) by (rule baseVal_digits_less)
  also have "(10::nat) ^ length s \<le> 10 ^ 15"
    using assms(3) by (intro power_increasing) simp_all
  also have "(10::nat) ^ 15 < 2 ^ 53" by simp
  finally have "toDouble (of_nat (baseVal 10 s)) = Fin (of_nat (baseVal 10 s))"
    by (rule toDouble_of_nat)
  then show ?thesis using StringToNumber_digits [OF assms(1,2)] by simp
qed

lemma isDigit_numericChar: "isDigit c \<Longrightarrow> numericChar c"
  by (simp add: numericChar_def isDigit_inBase)

lemma inBase_16: "inBase b c \<Longrightarrow> b \<le> 16 \<Longrightarrow> inBase 16 c"
  by (auto simp: inBase_def split: option.splits)

lemma numericChar_letters:
  "numericChar CHR ''+''" "numericChar CHR ''-''" "numericChar CHR ''.''"
  "numericChar CHR ''e''" "numericChar CHR ''E''" "numericChar CHR ''0''"
  "numericChar CHR ''x''" "numericChar CHR ''X''" "numericChar CHR ''o''"
  "numericChar CHR ''O''" "numericChar CHR ''b''" "numericChar CHR ''B''"
  by (simp_all add: numericChar_def inBase_def hexVal_def)

lemma exponentPart_chars:
  assumes "exponentPart r = Some e"
  shows "\<forall>c\<in>set r. numericChar c"
proof (cases r)
  case Nil
  then show ?thesis by simp
next
  case (Cons c r')
  have ce: "c = CHR ''e'' \<or> c = CHR ''E''"
    using assms Cons by (simp add: exponentPart_def split: if_splits)
  then have nc: "numericChar c" using numericChar_letters(4,5) by blast
  show ?thesis
  proof (cases r')
    case Nil
    then show ?thesis using assms Cons ce by (auto simp: exponentPart_def)
  next
    case (Cons d r'')
    have "list_all isDigit r' \<or> ((d = CHR ''-'' \<or> d = CHR ''+'') \<and> list_all isDigit r'')"
      using assms ce \<open>r = c # r'\<close> Cons
      by (auto simp: exponentPart_def Let_def split: if_splits)
    then have "\<forall>x\<in>set r'. numericChar x"
      using Cons numericChar_letters(1,2) by (auto simp: list_all_iff isDigit_numericChar)
    then show ?thesis using nc \<open>r = c # r'\<close> by simp
  qed
qed

lemma digits_prefix_chars: "\<forall>c\<in>set (takeWhile isDigit u). numericChar c"
  by (auto dest: set_takeWhileD simp: isDigit_numericChar)

lemma unsignedDecimal_chars:
  assumes "unsignedDecimal u \<noteq> NaN"
  shows "\<forall>c\<in>set u. numericChar c"
proof (cases "u = ''Infinity''")
  case True
  then show ?thesis by (simp add: numericChar_def inBase_def hexVal_def)
next
  case False
  let ?r1 = "dropWhile isDigit u"
  have split: "u = takeWhile isDigit u @ ?r1" by simp
  have r1: "\<forall>c\<in>set ?r1. numericChar c"
  proof (cases ?r1)
    case Nil
    show ?thesis unfolding Nil by simp
  next
    case (Cons c r)
    show ?thesis
    proof (cases "c = CHR ''.''")
      case True
      have "exponentPart (dropWhile isDigit r) \<noteq> None"
        using assms False Cons True
        by (auto simp: unsignedDecimal_def Let_def split: if_splits option.splits)
      then obtain e where "exponentPart (dropWhile isDigit r) = Some e" by auto
      from exponentPart_chars [OF this]
      have "\<forall>x\<in>set (dropWhile isDigit r). numericChar x" .
      moreover have "r = takeWhile isDigit r @ dropWhile isDigit r" by simp
      ultimately have "\<forall>x\<in>set r. numericChar x"
        using digits_prefix_chars [of r]
        by (metis Un_iff set_append)
      then show ?thesis using Cons True numericChar_letters(3) by simp
    next
      case nd: False
      have "exponentPart ?r1 \<noteq> None"
        using assms False Cons nd
        by (auto simp: unsignedDecimal_def Let_def split: if_splits option.splits)
      then obtain e where "exponentPart ?r1 = Some e" by auto
      from exponentPart_chars [OF this] show ?thesis .
    qed
  qed
  show ?thesis
  proof
    fix c assume "c \<in> set u"
    then have "c \<in> set (takeWhile isDigit u) \<or> c \<in> set ?r1"
      by (metis Un_iff set_append split)
    then show "numericChar c" using r1 digits_prefix_chars [of u] by blast
  qed
qed

lemma nonDecimal_chars:
  assumes "nonDecimal t = Some n" and "n \<noteq> NaN"
  shows "\<forall>c\<in>set t. numericChar c"
proof -
  obtain z x ds where t: "t = z # x # ds"
    using assms(1) by (auto simp: nonDecimal_def split: list.splits)
  have z: "z = CHR ''0''"
    using assms(1) t by (simp add: nonDecimal_def split: if_splits)
  let ?b = "if x = CHR ''x'' \<or> x = CHR ''X'' then 16
            else if x = CHR ''o'' \<or> x = CHR ''O'' then 8
            else if x = CHR ''b'' \<or> x = CHR ''B'' then 2 else (0::nat)"
  have b: "?b \<noteq> 0" and ok: "list_all (inBase ?b) ds"
    using assms t z by (auto simp: nonDecimal_def Let_def split: if_splits)
  have x: "numericChar x"
    using b numericChar_letters(7-12) by (auto split: if_splits)
  have "?b \<le> 16" by simp
  then have "\<forall>c\<in>set ds. inBase 16 c"
    using ok unfolding list_all_iff by (meson inBase_16)
  then have "\<forall>c\<in>set ds. numericChar c" by (simp add: numericChar_def)
  then show ?thesis using t z x numericChar_letters(6) by simp
qed

lemma num_neg_NaN: "num_neg n = NaN \<longleftrightarrow> n = NaN"
  by (cases n) simp_all

lemma StringToNumber_chars:
  assumes "StringToNumber s \<noteq> NaN"
  shows "\<forall>c\<in>set s. numericChar c"
proof -
  have t: "\<forall>c\<in>set (trimWS s). numericChar c"
  proof (cases "trimWS s")
    case Nil
    then show ?thesis by simp
  next
    case (Cons c r)
    show ?thesis
    proof (cases "nonDecimal (trimWS s)")
      case (Some n)
      then have "n \<noteq> NaN" using assms Cons by (simp add: StringToNumber_def)
      from nonDecimal_chars [OF Some this] show ?thesis .
    next
      case None
      consider (plus) "c = CHR ''+''" | (minus) "c = CHR ''-''"
        | (other) "c \<noteq> CHR ''+''" "c \<noteq> CHR ''-''" by blast
      then show ?thesis
      proof cases
        case plus
        then have "unsignedDecimal r \<noteq> NaN"
          using assms Cons None by (simp add: StringToNumber_def)
        from unsignedDecimal_chars [OF this] show ?thesis
          using Cons plus numericChar_letters(1) by simp
      next
        case minus
        then have "unsignedDecimal r \<noteq> NaN"
          using assms Cons None by (simp add: StringToNumber_def num_neg_NaN)
        from unsignedDecimal_chars [OF this] show ?thesis
          using Cons minus numericChar_letters(2) by simp
      next
        case other
        then have "unsignedDecimal (trimWS s) \<noteq> NaN"
          using assms Cons None by (simp add: StringToNumber_def)
        from unsignedDecimal_chars [OF this] show ?thesis .
      qed
    qed
  qed
  show ?thesis
  proof
    fix c assume c: "c \<in> set s"
    show "numericChar c"
    proof (cases "isWhiteSpace c")
      case True
      then show ?thesis by (simp add: numericChar_def)
    next
      case False
      from trimWS_keeps [OF c False] t show ?thesis by blast
    qed
  qed
qed

lemma StringToNumber_foreign_char:
  "c \<in> set s \<Longrightarrow> \<not> numericChar c \<Longrightarrow> StringToNumber s = NaN"
  using StringToNumber_chars by blast

lemma parse_coerced_NaN:
  "StringToNumber s = NaN \<Longrightarrow> fst (parse L (ZNumber True cs) p (JStr s)) = Aborted"
  by (simp add: invalidType_def)

lemma parse_optional_coerced_NaN:
  "StringToNumber s = NaN \<Longrightarrow> fst (parse L (ZOptional (ZNumber True cs)) p (JStr s)) \<noteq> Valid"
  by (simp add: invalidType_def)

lemma parse_object_field_invalid:
  assumes "(k, sch) \<in> set shape" and "fst (parse L sch (p @ [Key k]) (get kvs k)) \<noteq> Valid"
  shows "fst (parse L (ZObject shape) p (JObj kvs)) \<noteq> Valid"
proof -
  let ?rs = "map (\<lambda>(k, sch). (k, parse L sch (p @ [Key k]) (get kvs k))) shape"
  have "fst (parse L sch (p @ [Key k]) (get kvs k)) \<in> set (map (fst \<circ> snd) ?rs)"
    using assms(1) by force
  then have "foldl mergeStatus Valid (map (fst \<circ> snd) ?rs) \<noteq> Valid"
    using assms(2) unfolding foldl_mergeStatus_Valid by blast
  then show ?thesis by (simp add: Let_def)
qed

lemma parse_array_elem_invalid:
  assumes "i < length xs" and "fst (parse L el (p @ [Idx i]) (xs ! i)) \<noteq> Valid"
  shows "fst (parse L (ZArray el m) p (JArr xs)) \<noteq> Valid"
proof -
  let ?rs = "map (\<lambda>(i, x). parse L el (p @ [Idx i]) x) (enumerate 0 xs)"
  have "(i, xs ! i) \<in> set (enumerate 0 xs)"
    using assms(1) by (simp add: in_set_enumerate_eq)
  then have "fst (parse L el (p @ [Idx i]) (xs ! i)) \<in> set (map fst ?rs)"
    by force
  then have "foldl mergeStatus a (map fst ?rs) \<noteq> Valid" for a
    using assms(2) unfolding foldl_mergeStatus_Valid by blast
  then show ?thesis by (simp add: Let_def)
qed

lemma submitDsr_invalid:
  "safeParse (lib E) dsrSchema data = Inl iss \<Longrightarrow>
   \<not> success (fst (submitDsr E w data)) \<and> snd (submitDsr E w data) = w"
  by (simp add: submitDsr_def invalid_def)

lemma logCall_invalid:
  "safeParse (lib E) callLogSchema data = Inl iss \<Longrightarrow>
   \<not> success (fst (logCall E w data)) \<and> snd (logCall E w data) = w"
  by (simp add: logCall_def invalid_def)

lemma submitEarnings_invalid:
  "safeParse (lib E) earningsSchema data = Inl iss \<Longrightarrow>
   \<not> success (fst (submitEarnings E w data)) \<and> snd (submitEarnings E w data) = w"
  by (simp add: submitEarnings_def invalid_def)

lemma applyForJob_invalid:
  "safeParse (lib E) applicationSchema (JObj (applicationInput fd)) = Inl iss \<Longrightarrow>
   \<not> success (fst (applyForJob E w fd)) \<and> snd (applyForJob E w fd) = w"
  by (simp add: applyForJob_def invalid_def)

lemma dsr_km_NaN:
  assumes "StringToNumber s = NaN"
    and "get kvs ''openingKm'' = JStr s \<or> get kvs ''closingKm'' = JStr s"
  shows "\<not> success (fst (submitDsr E w (JObj kvs))) \<and> snd (submitDsr E w (JObj kvs)) = w"
proof -
  obtain k where k: "k = ''openingKm'' \<or> k = ''closingKm''" and g: "get kvs k = JStr s"
    using assms(2) by blast
  have m: "(k, ZOptional (ZNumber True [])) \<in> set (case dsrSchema of ZObject sh \<Rightarrow> sh)"
    using k by (auto simp: dsrSchema_def)
  have "fst (parse (lib E) (ZOptional (ZNumber True [])) [Key k] (get kvs k)) \<noteq> Valid"
    unfolding g using assms(1) by (rule parse_optional_coerced_NaN)
  from safeParse_object_field_invalid [OF m this]
  obtain iss where "safeParse (lib E) dsrSchema (JObj kvs) = Inl iss"
    by (auto simp: dsrSchema_def)
  then show ?thesis by (rule submitDsr_invalid)
qed

lemma call_duration_NaN:
  assumes "StringToNumber s = NaN" and "get kvs ''duration'' = JStr s"
  shows "\<not> success (fst (logCall E w (JObj kvs))) \<and> snd (logCall E w (JObj kvs)) = w"
proof -
  let ?sch = "ZNumber True [(1, ''Duration must be at least 1 minute.'')]"
  have m: "(''duration'', ?sch) \<in> set (case callLogSchema of ZObject sh \<Rightarrow> sh)"
    by (simp add: callLogSchema_def)
  have "fst (parse (lib E) ?sch [Key ''duration''] (get kvs ''duration'')) \<noteq> Valid"
    unfolding assms(2) using parse_coerced_NaN [OF assms(1)] by simp
  from safeParse_object_field_invalid [OF m this]
  obtain iss where "safeParse (lib E) callLogSchema (JObj kvs) = Inl iss"
    by (auto simp: callLogSchema_def)
  then show ?thesis by (rule logCall_invalid)
qed

lemma earning_amount_NaN:
  assumes "StringToNumber s = NaN" and "get kvs ''earnings'' = JArr items"
    and "i < length items" and "items ! i = JObj item" and "get item ''amount'' = JStr s"
  shows "\<not> success (fst (submitEarnings E w (JObj kvs)))
         \<and> snd (submitEarnings E w (JObj kvs)) = w"
proof -
  let ?am = "ZNumber True [(1, ''Amount must be greater than 0.'')]"
  let ?arr = "ZArray earningItemSchema (Some (1, ''Please add at least one earning.''))"
  have ma: "(''amount'', ?am) \<in> set (case earningItemSchema of ZObject sh \<Rightarrow> sh)"
    by (simp add: earningItemSchema_def)
  have "fst (parse (lib E) ?am ([Key ''earnings'', Idx i] @ [Key ''amount''])
               (get item ''amount'')) \<noteq> Valid"
    unfolding assms(5) using parse_coerced_NaN [OF assms(1)] by simp
  from parse_object_field_invalid [OF ma this]
  have "fst (parse (lib E) earningItemSchema ([Key ''earnings''] @ [Idx i]) (items ! i)) \<noteq> Valid"
    unfolding assms(4) by (simp add: earningItemSchema_def del: parse.simps)
  from parse_array_elem_invalid [OF assms(3) this]
  have inv: "fst (parse (lib E) ?arr [Key ''earnings''] (get kvs ''earnings'')) \<noteq> Valid"
    unfolding assms(2) .
  have m: "(''earnings'', ?arr) \<in> set (case earningsSchema of ZObject sh \<Rightarrow> sh)"
    by (simp add: earningsSchema_def)
  from safeParse_object_field_invalid [OF m inv]
  obtain iss where "safeParse (lib E) earningsSchema (JObj kvs) = Inl iss"
    by (auto simp: earningsSchema_def)
  then show ?thesis by (rule submitEarnings_invalid)
qed

lemma application_years_NaN:
  assumes "StringToNumber s = NaN" and "s \<noteq> []"
    and "get (fromEntries fd) ''yearsOfExperience'' = JStr s"
  shows "\<not> success (fst (applyForJob E w fd)) \<and> snd (applyForJob E w fd) = w"
proof -
  let ?sch = "ZOptional (ZNumber True [])"
  have g: "get (applicationInput fd) ''yearsOfExperience'' = JNum NaN"
    using assms by (simp add: applicationInput_def Let_def get_update)
  have m: "(''yearsOfExperience'', ?sch) \<in> set (case applicationSchema of ZObject sh \<Rightarrow> sh)"
    by (simp add: applicationSchema_def)
  have "fst (parse (lib E) ?sch [Key ''yearsOfExperience'']
               (get (applicationInput fd) ''yearsOfExperience'')) \<noteq> Valid"
    unfolding g by (simp add: invalidType_def)
  from safeParse_object_field_invalid [OF m this]
  obtain iss where
    "safeParse (lib E) applicationSchema (JObj (applicationInput fd)) = Inl iss"
    by (auto simp: applicationSchema_def)
  then show ?thesis by (rule applyForJob_invalid)
qed

lemma addJob_invalid:
  "safeParse (lib E) jobSchema data = Inl iss \<Longrightarrow>
   \<not> success (fst (addJob E w data)) \<and> snd (addJob E w data) = w"
  by (simp add: addJob_def invalid_def)

lemma job_bounds_NaN:
  assumes "StringToNumber s = NaN"
    and "get kvs ''experienceMin'' = JStr s \<or> get kvs ''experienceMax'' = JStr s
         \<or> get kvs ''salaryMin'' = JStr s \<or> get kvs ''salaryMax'' = JStr s"
  shows "\<not> success (fst (addJob E w (JObj kvs))) \<and> snd (addJob E w (JObj kvs)) = w"
proof -
  let ?sch = "ZOptional (ZNumber True [(0, ''Number must be greater than or equal to 0'')])"
  obtain k where k: "k = ''experienceMin'' \<or> k = ''experienceMax''
                     \<or> k = ''salaryMin'' \<or> k = ''salaryMax''"
    and g: "get kvs k = JStr s"
    using assms(2) by blast
  have m: "(k, ?sch) \<in> set (case jobSchema of ZObject sh \<Rightarrow> sh)"
    using k by (auto simp: jobSchema_def)
  have "fst (parse (lib E) ?sch [Key k] (get kvs k)) \<noteq> Valid"
    unfolding g using assms(1) by (rule parse_optional_coerced_NaN)
  from safeParse_object_field_invalid [OF m this]
  obtain iss where "safeParse (lib E) jobSchema (JObj kvs) = Inl iss"
    by (auto simp: jobSchema_def)
  then show ?thesis by (rule addJob_invalid)
qed

text \<open>A blank string passes every minimum that is not above 0, as the number 0.\<close>

lemma checkIssues_none: "list_all (\<lambda>r. r = None) rs \<Longrightarrow> checkIssues p rs = []"
  by (induction rs) (simp_all add: checkIssues_def List.map_filter_def)

lemma parse_optional_coerced_blank:
  assumes "list_all isWhiteSpace s" and "list_all (\<lambda>(lo, m). lo \<le> 0) cs"
  shows "parse L (ZOptional (ZNumber True cs)) p (JStr s) = (Valid, [], JNum (Fin 0))"
proof -
  have "list_all (\<lambda>r. r = None)
          (map (\<lambda>(lo, m). if num_less (Fin 0) (Fin lo) then Some m else None) cs)"
    using assms(2) by (induction cs) auto
  then have "checkIssues p
               (map (\<lambda>(lo, m). if num_less (Fin 0) (Fin lo) then Some m else None) cs) = []"
    by (rule checkIssues_none)
  then show ?thesis
    by (simp add: StringToNumber_blank [OF assms(1)] checked_def)
qed

text \<open>
  The year of passing is declared as a string: it is not converted, and an application
  is accepted and stored with whatever the field holds.
\<close>

lemma applicationInput_passingForm: "applicationInput (passingForm s) =
  [(''jobId'', JStr ''job42''),
   (''fullName'', JStr ''Ann Lee''),
   (''mobile'', JStr ''9876543210''),
   (''email'', JStr ''ann@example.com''),
   (''yearOfPassing'', JStr s),
   (''hasExperience'', JStr ''yes''),
   (''yearsOfExperience'', JNum (Fin 3)),
   (''readyToRelocate'', JStr ''yes''),
   (''confirmInfo'', JBool True),
   (''agreeTerms'', JBool True),
   (''languages'', JArr [])]"
  by (simp add: applicationInput_def passingForm_def fromEntries_def formGetAll_def get_def
        Let_def number_defs)

lemma applicationSchema_passingForm:
  "safeParse (lib exampleEnv) applicationSchema (JObj (applicationInput (passingForm s)))
     = Inr (JObj [(''jobId'', JStr ''job42''),
                  (''fullName'', JStr ''Ann Lee''),
                  (''mobile'', JStr ''9876543210''),
                  (''email'', JStr ''ann@example.com''),
                  (''yearOfPassing'', JStr s),
                  (''hasExperience'', JStr ''yes''),
                  (''yearsOfExperience'', JNum (Fin 3)),
                  (''languages'', JArr []),
                  (''readyToRelocate'', JStr ''yes''),
                  (''confirmInfo'', JBool True),
                  (''agreeTerms'', JBool True)])"
  unfolding applicationInput_passingForm
  by (simp add: eval_defs applicationSchema_def joinValues_def)

lemma passingForm_accepted:
  "fst (applyForJob exampleEnv emptyWorld (passingForm s))
     = reply True ''Application submitted successfully! We will get back to you soon.''
   \<and> map docData (store (snd (applyForJob exampleEnv emptyWorld (passingForm s))))
       = [[(''jobId'', JStr ''job42''),
           (''fullName'', JStr ''Ann Lee''),
           (''mobile'', JStr ''9876543210''),
           (''email'', JStr ''ann@example.com''),
           (''yearOfPassing'', JStr s),
           (''hasExperience'', JStr ''yes''),
           (''yearsOfExperience'', JNum (Fin 3)),
           (''languages'', JArr []),
           (''readyToRelocate'', JStr ''yes''),
           (''confirmInfo'', JBool True),
           (''agreeTerms'', JBool True),
           (''submittedAt'', JNum (Fin 1700000000))]]"
  by (simp add: applyForJob_def applicationSchema_passingForm)
     (simp add: resumeStep_def formGet_def passingForm_def eval_defs)

text \<open>
  Conversion rounds: the digits \<^verbatim>\<open>9007199254740993\<close> denote an integer that is not a
  double and convert to its even neighbour, and \<^verbatim>\<open>1e309\<close> is beyond the largest double
  and converts to infinity.
\<close>

lemma StringToNumber_overflows: "StringToNumber ''1e309'' = PosInf"
proof -
  have "StringToNumber ''1e309'' = toDouble (10 ^ 309)"
    by (simp add: StringToNumber_def trimWS_def isWhiteSpace_def nonDecimal_def
          unsignedDecimal_def isDigit_def exponentPart_def baseVal_def hexVal_def scale10_def)
  also have "\<dots> = PosInf"
    by (simp add: double_defs)
  finally show ?thesis .
qed

lemma StringToNumber_rounds: "StringToNumber ''9007199254740993'' = Fin 9007199254740992"
proof -
  have "StringToNumber ''9007199254740993'' = toDouble (of_nat (baseVal 10 ''9007199254740993''))"
    by (rule StringToNumber_digits) (simp_all add: isDigit_def)
  also have "of_nat (baseVal 10 ''9007199254740993'') = (9007199254740993 :: rat)"
    by (simp add: baseVal_def hexVal_def)
  also have "toDouble 9007199254740993 = Fin 9007199254740992"
    by (simp add: double_defs)
  finally show ?thesis .
qed

text \<open>
  Claim C7 says that a non-numeric string in a numeric field (the year, the duration,
  the amount, the KM distances) is a validation failure and never a silent zero, and
  that the string is read in base 10. The KM readings are declared with
  \<^verbatim>\<open>z.coerce.number()\<close>, which applies \<^verbatim>\<open>Number\<close>: the empty string becomes 0 and
  \<^verbatim>\<open>0x10\<close> becomes 16. The report below, with the empty string as opening reading, is
  accepted and stored with the opening reading 0. The year of passing is declared as a
  string: the application below, whose year of passing is \<^verbatim>\<open>next year\<close>, is accepted and
  stored with it.
\<close>

theorem coerced_empty_string_counterexample:
  "StringToNumber [] = Fin 0
   \<and> fst (submitDsr exampleEnv emptyWorld (JObj blankOpeningDsr))
       = reply True ''DSR submitted successfully.''
   \<and> map docData (store (snd (submitDsr exampleEnv emptyWorld (JObj blankOpeningDsr))))
       = [[(''description'', JStr ''Visited the client site''),
           (''hasTravelled'', JBool True),
           (''openingKm'', JNum (Fin 0)),
           (''closingKm'', JNum (Fin 16)),
           (''employeeId'', JStr ''emp1''),
           (''employeeName'', JStr ''Bob''),
           (''date'', JNum (Fin 1700000000))]]
   \<and> fst (applyForJob exampleEnv emptyWorld (passingForm ''next year''))
       = reply True ''Application submitted successfully! We will get back to you soon.''
   \<and> map docData (store (snd (applyForJob exampleEnv emptyWorld (passingForm ''next year''))))
       = [[(''jobId'', JStr ''job42''),
           (''fullName'', JStr ''Ann Lee''),
           (''mobile'', JStr ''9876543210''),
           (''email'', JStr ''ann@example.com''),
           (''yearOfPassing'', JStr ''next year''),
           (''hasExperience'', JStr ''yes''),
           (''yearsOfExperience'', JNum (Fin 3)),
           (''languages'', JArr []),
           (''readyToRelocate'', JStr ''yes''),
           (''confirmInfo'', JBool True),
           (''agreeTerms'', JBool True),
           (''submittedAt'', JNum (Fin 1700000000))]]"
proof -
  have a0: "StringToNumber [] = Fin 0"
    by (simp add: StringToNumber_def trimWS_def)
  have a1: "safeParse (lib exampleEnv) dsrSchema (JObj blankOpeningDsr)
              = Inr (JObj [(''description'', JStr ''Visited the client site''),
                           (''hasTravelled'', JBool True),
                           (''openingKm'', JNum (Fin 0)),
                           (''closingKm'', JNum (Fin 16)),
                           (''employeeId'', JStr ''emp1''),
                           (''employeeName'', JStr ''Bob'')])"
    by (simp add: eval_defs number_defs dsrSchema_def blankOpeningDsr_def)
  have a2: "fst (submitDsr exampleEnv emptyWorld (JObj blankOpeningDsr))
              = reply True ''DSR submitted successfully.''"
    by (simp add: submitDsr_def a1) (simp add: eval_defs)
  have a3: "map docData (store (snd (submitDsr exampleEnv emptyWorld (JObj blankOpeningDsr))))
       = [[(''description'', JStr ''Visited the client site''),
           (''hasTravelled'', JBool True),
           (''openingKm'', JNum (Fin 0)),
           (''closingKm'', JNum (Fin 16)),
           (''employeeId'', JStr ''emp1''),
           (''employeeName'', JStr ''Bob''),
           (''date'', JNum (Fin 1700000000))]]"
    by (simp add: submitDsr_def a1) (simp add: eval_defs)
  note a4 = passingForm_accepted [of "''next year''"]
  show ?thesis using a0 a2 a3 a4 by (intro conjI) simp_all
qed

text \<open>
  Claim C7 as amended. A string given for a field declared with
  \<^verbatim>\<open>z.coerce.number()\<close> (the KM readings of a report, the duration of a call, the
  amount of an earning, the years of experience of an applicant, the experience and
  salary bounds of a job posting) is converted by \<^verbatim>\<open>Number\<close>. A string that contains a
  character which no numeric literal contains converts to NaN, and a string that
  converts to NaN is a validation failure of the handler, which writes nothing. A
  non-empty string of decimal digits is read in base 10: it converts to the double
  nearest to the integer it denotes, which is that integer when the digits are at most
  15. An empty or all-white-space string converts to 0 and is a valid value of an
  optional coerced number whose minimum, if it has one, is not above 0. The year of
  passing is declared as an optional string: it is not converted and every string is
  valid for it; the example application is accepted and stored with whatever string the
  field holds.
\<close>

theorem coerced_number_fields_on_strings:
  "(c \<in> set s \<and> \<not> numericChar c \<longrightarrow> StringToNumber s = NaN)
   \<and> (StringToNumber s = NaN \<longrightarrow>
        (get kvs ''openingKm'' = JStr s \<or> get kvs ''closingKm'' = JStr s \<longrightarrow>
           \<not> success (fst (submitDsr E w (JObj kvs))) \<and> snd (submitDsr E w (JObj kvs)) = w)
      \<and> (get kvs ''duration'' = JStr s \<longrightarrow>
           \<not> success (fst (logCall E w (JObj kvs))) \<and> snd (logCall E w (JObj kvs)) = w)
      \<and> (get kvs ''earnings'' = JArr items \<and> i < length items \<and> items ! i = JObj item
           \<and> get item ''amount'' = JStr s \<longrightarrow>
           \<not> success (fst (submitEarnings E w (JObj kvs)))
           \<and> snd (submitEarnings E w (JObj kvs)) = w)
      \<and> (s \<noteq> [] \<and> get (fromEntries fd) ''yearsOfExperience'' = JStr s \<longrightarrow>
           \<not> success (fst (applyForJob E w fd)) \<and> snd (applyForJob E w fd) = w)
      \<and> (get kvs ''experienceMin'' = JStr s \<or> get kvs ''experienceMax'' = JStr s
           \<or> get kvs ''salaryMin'' = JStr s \<or> get kvs ''salaryMax'' = JStr s \<longrightarrow>
           \<not> success (fst (addJob E w (JObj kvs))) \<and> snd (addJob E w (JObj kvs)) = w))
   \<and> (s \<noteq> [] \<and> list_all isDigit s \<longrightarrow>
        StringToNumber s = toDouble (of_nat (baseVal 10 s))
        \<and> (length s \<le> 15 \<longrightarrow> StringToNumber s = Fin (of_nat (baseVal 10 s))))
   \<and> (list_all isWhiteSpace s \<longrightarrow>
        StringToNumber s = Fin 0
        \<and> (list_all (\<lambda>(lo, m). lo \<le> 0) cs \<longrightarrow>
             parse (lib E) (ZOptional (ZNumber True cs)) p (JStr s)
               = (Valid, [], JNum (Fin 0))))
   \<and> map_of (case applicationSchema of ZObject shape \<Rightarrow> shape) ''yearOfPassing''
       = Some (ZOptional (ZString []))
   \<and> parse (lib E) (ZOptional (ZString [])) p (JStr s) = (Valid, [], JStr s)
   \<and> fst (applyForJob exampleEnv emptyWorld (passingForm s))
       = reply True ''Application submitted successfully! We will get back to you soon.''
   \<and> map (\<lambda>d. get (docData d) ''yearOfPassing'')
        (store (snd (applyForJob exampleEnv emptyWorld (passingForm s)))) = [JStr s]"
proof (intro conjI impI)
  assume "c \<in> set s \<and> \<not> numericChar c"
  then show "StringToNumber s = NaN" using StringToNumber_foreign_char by blast
next
  assume n: "StringToNumber s = NaN"
    and "get kvs ''openingKm'' = JStr s \<or> get kvs ''closingKm'' = JStr s"
  from dsr_km_NaN [OF this]
  show "\<not> success (fst (submitDsr E w (JObj kvs)))" "snd (submitDsr E w (JObj kvs)) = w"
    by simp_all
next
  assume n: "StringToNumber s = NaN" and "get kvs ''duration'' = JStr s"
  from call_duration_NaN [OF this]
  show "\<not> success (fst (logCall E w (JObj kvs)))" "snd (logCall E w (JObj kvs)) = w"
    by simp_all
next
  assume n: "StringToNumber s = NaN"
    and h: "get kvs ''earnings'' = JArr items \<and> i < length items \<and> items ! i = JObj item
           \<and> get item ''amount'' = JStr s"
  from h have "get kvs ''earnings'' = JArr items" "i < length items" "items ! i = JObj item"
    "get item ''amount'' = JStr s" by simp_all
  from earning_amount_NaN [OF n this]
  show "\<not> success (fst (submitEarnings E w (JObj kvs)))"
    "snd (submitEarnings E w (JObj kvs)) = w"
    by simp_all
next
  assume n: "StringToNumber s = NaN"
    and h: "s \<noteq> [] \<and> get (fromEntries fd) ''yearsOfExperience'' = JStr s"
  from h have "s \<noteq> []" "get (fromEntries fd) ''yearsOfExperience'' = JStr s" by simp_all
  from application_years_NaN [OF n this]
  show "\<not> success (fst (applyForJob E w fd))" "snd (applyForJob E w fd) = w"
    by simp_all
next
  assume n: "StringToNumber s = NaN"
    and "get kvs ''experienceMin'' = JStr s \<or> get kvs ''experienceMax'' = JStr s
         \<or> get kvs ''salaryMin'' = JStr s \<or> get kvs ''salaryMax'' = JStr s"
  from job_bounds_NaN [OF this]
  show "\<not> success (fst (addJob E w (JObj kvs)))" "snd (addJob E w (JObj kvs)) = w"
    by simp_all
next
  assume d: "s \<noteq> [] \<and> list_all isDigit s"
  then show "StringToNumber s = toDouble (of_nat (baseVal 10 s))"
    using StringToNumber_digits by blast
  assume "length s \<le> 15"
  then show "StringToNumber s = Fin (of_nat (baseVal 10 s))"
    using d StringToNumber_digits_exact by blast
next
  assume b: "list_all isWhiteSpace s"
  then show "StringToNumber s = Fin 0" by (rule StringToNumber_blank)
  assume "list_all (\<lambda>(lo, m). lo \<le> 0) cs"
  with b show "parse (lib E) (ZOptional (ZNumber True cs)) p (JStr s)
                 = (Valid, [], JNum (Fin 0))"
    by (rule parse_optional_coerced_blank)
next
  show "map_of (case applicationSchema of ZObject shape \<Rightarrow> shape) ''yearOfPassing''
          = Some (ZOptional (ZString []))"
    by (simp add: applicationSchema_def)
next
  show "parse (lib E) (ZOptional (ZString [])) p (JStr s) = (Valid, [], JStr s)"
    by (simp add: checked_def checkIssues_def List.map_filter_def)
next
  show "fst (applyForJob exampleEnv emptyWorld (passingForm s))
          = reply True ''Application submitted successfully! We will get back to you soon.''"
    using passingForm_accepted [of s] by simp
next
  show "map (\<lambda>d. get (docData d) ''yearOfPassing'')
          (store (snd (applyForJob exampleEnv emptyWorld (passingForm s)))) = [JStr s]"
  proof -
    have "map (\<lambda>d. get (docData d) ''yearOfPassing'')
            (store (snd (applyForJob exampleEnv emptyWorld (passingForm s))))
          = map (\<lambda>kvs. get kvs ''yearOfPassing'')
              (map docData (store (snd (applyForJob exampleEnv emptyWorld (passingForm s)))))"
      by (simp add: comp_def)
    also have "\<dots> = [JStr s]"
      unfolding conjunct2 [OF passingForm_accepted [of s]] by (simp add: get_def)
    finally show ?thesis .
  qed
qed

theorem coerced_number_fields_on_strings_witness:
  "CHR ''p'' \<in> set ''12px'' \<and> \<not> numericChar CHR ''p'' \<and> StringToNumber ''12px'' = NaN
   \<and> get pxDsr ''openingKm'' = JStr ''12px''
   \<and> \<not> success (fst (submitDsr exampleEnv emptyWorld (JObj pxDsr)))
   \<and> snd (submitDsr exampleEnv emptyWorld (JObj pxDsr)) = emptyWorld
   \<and> get pxCall ''duration'' = JStr ''12px''
   \<and> \<not> success (fst (logCall exampleEnv emptyWorld (JObj pxCall)))
   \<and> snd (logCall exampleEnv emptyWorld (JObj pxCall)) = emptyWorld
   \<and> get pxEarnings ''earnings'' = JArr [JObj pxItem]
   \<and> (0::nat) < length [JObj pxItem] \<and> [JObj pxItem] ! 0 = JObj pxItem
   \<and> get pxItem ''amount'' = JStr ''12px''
   \<and> \<not> success (fst (submitEarnings exampleEnv emptyWorld (JObj pxEarnings)))
   \<and> snd (submitEarnings exampleEnv emptyWorld (JObj pxEarnings)) = emptyWorld
   \<and> ''12px'' \<noteq> [] \<and> get (fromEntries pxForm) ''yearsOfExperience'' = JStr ''12px''
   \<and> \<not> success (fst (applyForJob exampleEnv emptyWorld pxForm))
   \<and> snd (applyForJob exampleEnv emptyWorld pxForm) = emptyWorld
   \<and> get pxJob ''salaryMin'' = JStr ''12px''
   \<and> \<not> success (fst (addJob exampleEnv emptyWorld (JObj pxJob)))
   \<and> snd (addJob exampleEnv emptyWorld (JObj pxJob)) = emptyWorld
   \<and> ''15000'' \<noteq> [] \<and> list_all isDigit ''15000'' \<and> length ''15000'' \<le> 15
   \<and> StringToNumber ''15000'' = Fin 15000
   \<and> list_all isWhiteSpace '' '' \<and> StringToNumber '' '' = Fin 0
   \<and> list_all (\<lambda>(lo, m). lo \<le> 0) [(0 :: rat, ''Number must be greater than or equal to 0'')]
   \<and> parse (lib exampleEnv)
         (ZOptional (ZNumber True [(0, ''Number must be greater than or equal to 0'')]))
         [Key ''salaryMin''] (JStr '' '')
       = (Valid, [], JNum (Fin 0))"
proof -
  have c1: "CHR ''p'' \<in> set ''12px''" by simp
  have c2: "\<not> numericChar CHR ''p''"
    by (simp add: numericChar_def isWhiteSpace_def inBase_def hexVal_def)
  have n: "StringToNumber ''12px'' = NaN"
    using coerced_number_fields_on_strings [where c = "CHR ''p''" and s = "''12px''"] c1 c2
    by blast
  have g2: "get pxDsr ''openingKm'' = JStr ''12px''" by (simp add: pxDsr_def get_def)
  have r2: "\<not> success (fst (submitDsr exampleEnv emptyWorld (JObj pxDsr)))
            \<and> snd (submitDsr exampleEnv emptyWorld (JObj pxDsr)) = emptyWorld"
    using coerced_number_fields_on_strings
            [where s = "''12px''" and kvs = pxDsr and E = exampleEnv and w = emptyWorld] n g2
    by blast
  have g3: "get pxCall ''duration'' = JStr ''12px''" by (simp add: pxCall_def get_def)
  have r3: "\<not> success (fst (logCall exampleEnv emptyWorld (JObj pxCall)))
            \<and> snd (logCall exampleEnv emptyWorld (JObj pxCall)) = emptyWorld"
    using coerced_number_fields_on_strings
            [where s = "''12px''" and kvs = pxCall and E = exampleEnv and w = emptyWorld] n g3
    by blast
  have g4: "get pxEarnings ''earnings'' = JArr [JObj pxItem]"
    "(0::nat) < length [JObj pxItem]" "[JObj pxItem] ! 0 = JObj pxItem"
    "get pxItem ''amount'' = JStr ''12px''"
    by (simp_all add: pxEarnings_def pxItem_def get_def)
  have r4: "\<not> success (fst (submitEarnings exampleEnv emptyWorld (JObj pxEarnings)))
            \<and> snd (submitEarnings exampleEnv emptyWorld (JObj pxEarnings)) = emptyWorld"
    using coerced_number_fields_on_strings
            [where s = "''12px''" and kvs = pxEarnings and E = exampleEnv and w = emptyWorld
               and items = "[JObj pxItem]" and i = 0 and item = pxItem] n g4
    by blast
  have g5: "''12px'' \<noteq> []" "get (fromEntries pxForm) ''yearsOfExperience'' = JStr ''12px''"
    by (simp_all add: pxForm_def fromEntries_def get_def)
  have r5: "\<not> success (fst (applyForJob exampleEnv emptyWorld pxForm))
            \<and> snd (applyForJob exampleEnv emptyWorld pxForm) = emptyWorld"
    using coerced_number_fields_on_strings
            [where s = "''12px''" and fd = pxForm and E = exampleEnv and w = emptyWorld] n g5
    by blast
  have g8: "get pxJob ''salaryMin'' = JStr ''12px''" by (simp add: pxJob_def get_def)
  have r8: "\<not> success (fst (addJob exampleEnv emptyWorld (JObj pxJob)))
            \<and> snd (addJob exampleEnv emptyWorld (JObj pxJob)) = emptyWorld"
    using coerced_number_fields_on_strings
            [where s = "''12px''" and kvs = pxJob and E = exampleEnv and w = emptyWorld] n g8
    by blast
  have g6: "''15000'' \<noteq> []" "list_all isDigit ''15000''" "length ''15000'' \<le> 15"
    by (simp_all add: isDigit_def)
  have "StringToNumber ''15000'' = Fin (of_nat (baseVal 10 ''15000''))"
    using coerced_number_fields_on_strings [where s = "''15000''"] g6 by blast
  then have r6: "StringToNumber ''15000'' = Fin 15000"
    by (simp add: baseVal_def hexVal_def)
  have g7: "list_all isWhiteSpace '' ''" by (simp add: isWhiteSpace_def)
  have g9: "list_all (\<lambda>(lo, m). lo \<le> 0)
              [(0 :: rat, ''Number must be greater than or equal to 0'')]"
    by simp
  have r7: "StringToNumber '' '' = Fin 0
            \<and> parse (lib exampleEnv)
                 (ZOptional (ZNumber True [(0, ''Number must be greater than or equal to 0'')]))
                 [Key ''salaryMin''] (JStr '' '') = (Valid, [], JNum (Fin 0))"
    using coerced_number_fields_on_strings
            [where s = "'' ''" and E = exampleEnv and p = "[Key ''salaryMin'']"
               and cs = "[(0, ''Number must be greater than or equal to 0'')]"] g7 g9
    by blast
  show ?thesis using c1 c2 n g2 r2 g3 r3 g4 r4 g5 r5 g8 r8 g6 r6 g7 g9 r7 by blast
qed

end
